theory Spec2Isabelle
  imports Main "HOL-Library.Word" "HOL-Library.Sublist" "HOL-Library.Multiset"
    "HOL-Library.Char_ord" "HOL-Library.List_Lexorder"
begin

section \<open>Bibliothermes: the bookmark store and its browser importers\<close>

text \<open>
  A shallow embedding of \<^verbatim>\<open>main.go\<close>. Every Go function that a property below talks
  about is a HOL function of the same name; the receiver \<^verbatim>\<open>s *AppState\<close> is passed in
  and the updated state is returned. What the program reads from its surroundings (the
  operating system's name, file contents, the directory tree, the SQLite database, the
  order in which \<^verbatim>\<open>range\<close> walks a Go map) is an argument of the function that reads it.
\<close>

subsection \<open>Data structures\<close>

text \<open>
  Go's \<^verbatim>\<open>int\<close> has the width of the platform; the development fixes the 64 bits of every
  64-bit target. Arithmetic wraps around (\<^verbatim>\<open>s.nextID++\<close> is \<open>+ 1\<close> on the word) and
  comparisons are signed (\<open>sint\<close>). A Go \<^verbatim>\<open>string\<close> is a sequence of bytes, compared byte
  by byte: \<open>string\<close>.
\<close>

type_synonym go_int = "64 word"

record Bookmark =
  ID :: go_int
  Name :: string
  URL :: string
  Favorite :: bool

record Config =
  DefaultBrowserCmd :: string

record AppState =
  Bookmarks :: "Bookmark list"
  Config :: Config
  nextID :: go_int

subsection \<open>addBookmark\<close>

text \<open>
  \<^verbatim>\<open>for _, b := range s.Bookmarks { if b.URL == url { return } }\<close>: the loop of
  \<^verbatim>\<open>addBookmark\<close>, returning whether it hit the \<^verbatim>\<open>return\<close>.
\<close>

fun urlExists :: "Bookmark list \<Rightarrow> string \<Rightarrow> bool" where
  "urlExists [] url = False"
| "urlExists (b # bs) url = (if URL b = url then True else urlExists bs url)"

definition addBookmark :: "AppState \<Rightarrow> string \<Rightarrow> string \<Rightarrow> AppState" where
  "addBookmark s name url =
     (if urlExists (Bookmarks s) url then s
      else s\<lparr>Bookmarks :=
               Bookmarks s @ [\<lparr>ID = nextID s, Name = name, URL = url, Favorite = False\<rparr>],
             nextID := nextID s + 1\<rparr>)"

subsection \<open>Results, errors and panics\<close>

text \<open>
  The errors are the four that the importers build with \<^verbatim>\<open>fmt.Errorf\<close>, named after their
  messages, and the two of the state file. A Go function that can hit a run-time panic
  returns an \<open>outcome\<close>: the program has no \<^verbatim>\<open>recover\<close>, so a panic ends the process.
\<close>

datatype error =
    CouldNotReadFile
  | CouldNotParseJSON
  | CouldNotOpenDB
  | CouldNotQuery
  | CouldNotReadState
  | CouldNotUnmarshalState
  | CouldNotWriteState

datatype panic = IndexOutOfRange | NilPointerDereference

datatype 'a outcome = Returns 'a | Panics panic

subsection \<open>The Chromium bookmark tree\<close>

datatype chromeBookmarkNode =
  Node (Type: string) (NodeName: string) (NodeURL: string)
       (Children: "chromeBookmarkNode list")

text \<open>
  \<^verbatim>\<open>parseChromeBookmarks\<close>: the node first, then \<^verbatim>\<open>for _, child := range node.Children\<close>,
  which is \<open>parseChildren\<close>.
\<close>

fun parseChromeBookmarks :: "chromeBookmarkNode \<Rightarrow> AppState \<Rightarrow> AppState"
  and parseChildren :: "chromeBookmarkNode list \<Rightarrow> AppState \<Rightarrow> AppState" where
  "parseChromeBookmarks (Node ty name url children) state =
     parseChildren children
       (if ty = ''url'' \<and> url \<noteq> '''' then addBookmark state name url else state)"
| "parseChildren [] state = state"
| "parseChildren (child # rest) state =
     parseChildren rest (parseChromeBookmarks child state)"

subsection \<open>Decoding the bookmark file\<close>

text \<open>
  \<^verbatim>\<open>importFromChrome\<close> hands the file's bytes to \<^verbatim>\<open>json.Unmarshal\<close> of Go's standard
  library, with a struct of one field \<^verbatim>\<open>Roots map[string]chromeBookmarkNode\<close> as target.
  The decoder is modelled on a syntax tree of the document, by the rules of
  \<^verbatim>\<open>encoding/json\<close>:
  \<^item> an object decodes into a struct member by member, in the document's order, each
    member onto the field whose name it matches (a name it matches no field with is
    skipped), so a repeated member decodes onto what the earlier one left;
  \<^item> a member name matches a field when the two are equal after case folding
    (\<open>foldName\<close>);
  \<^item> \<^verbatim>\<open>null\<close> leaves a struct or a string as it is and sets a map or a slice to nil;
  \<^item> a string decodes into a string field, an array into a slice, an object into a
    struct or a map (each entry into a fresh element); any other pairing is a type
    mismatch, and \<^verbatim>\<open>Unmarshal\<close> then returns an error (\<open>None\<close> here; the decoder goes on
    to the end of the document first, but \<^verbatim>\<open>importFromChrome\<close> drops what it decoded);
  \<^item> an array decodes into a slice element by element, each onto the element the slice
    already has at that index, and onto a zero element beyond its length. (Elements
    that a shorter repeated array cut off are forgotten here.)
\<close>

datatype json =
    JNull
  | JBool bool
  | JNumber string
  | JString string
  | JArray "json list"
  | JObject "(string \<times> json) list"

text \<open>
  The case folding of \<^verbatim>\<open>encoding/json\<close> on the bytes of a name: ASCII letters to upper
  case, and the two letters outside ASCII that fold onto ASCII ones, U+017F (bytes C5 BF)
  onto S and U+212A (bytes E2 84 AA) onto K. Every other byte outside ASCII stays, and
  so keeps the name different from one written in ASCII.
\<close>

definition upperASCII :: "char \<Rightarrow> char" where
  "upperASCII c =
     (if (97::nat) \<le> of_char c \<and> of_char c \<le> (122::nat) then char_of (of_char c - (32::nat))
      else c)"

fun foldName :: "string \<Rightarrow> string" where
  "foldName [] = []"
| "foldName (c # cs) =
     (if take 2 (c # cs) = [CHR 0xC5, CHR 0xBF] then CHR ''S'' # foldName (drop 1 cs)
      else if take 3 (c # cs) = [CHR 0xE2, CHR 0x84, CHR 0xAA] then CHR ''K'' # foldName (drop 2 cs)
      else upperASCII c # foldName cs)"

definition matchesField :: "string \<Rightarrow> string \<Rightarrow> bool" where
  "matchesField key field = (foldName key = foldName field)"

definition zeroNode :: chromeBookmarkNode where
  "zeroNode = Node '''' '''' '''' []"

fun decodeString :: "json \<Rightarrow> string \<Rightarrow> string option" where
  "decodeString (JString x) cur = Some x"
| "decodeString JNull cur = Some cur"
| "decodeString _ cur = None"

fun decodeNode :: "json \<Rightarrow> chromeBookmarkNode \<Rightarrow> chromeBookmarkNode option"
  and decodeNodeMembers ::
    "(string \<times> json) list \<Rightarrow> chromeBookmarkNode \<Rightarrow> chromeBookmarkNode option"
  and decodeChildren ::
    "json \<Rightarrow> chromeBookmarkNode list \<Rightarrow> chromeBookmarkNode list option"
  and decodeElems ::
    "json list \<Rightarrow> chromeBookmarkNode list \<Rightarrow> chromeBookmarkNode list option" where
  "decodeNode JNull cur = Some cur"
| "decodeNode (JObject kvs) cur = decodeNodeMembers kvs cur"
| "decodeNode (JBool _) cur = None"
| "decodeNode (JNumber _) cur = None"
| "decodeNode (JString _) cur = None"
| "decodeNode (JArray _) cur = None"
| "decodeNodeMembers [] cur = Some cur"
| "decodeNodeMembers (kv # kvs) cur =
     (if matchesField (fst kv) ''type'' then
        (case decodeString (snd kv) (Type cur) of None \<Rightarrow> None
         | Some x \<Rightarrow> decodeNodeMembers kvs (Node x (NodeName cur) (NodeURL cur) (Children cur)))
      else if matchesField (fst kv) ''name'' then
        (case decodeString (snd kv) (NodeName cur) of None \<Rightarrow> None
         | Some x \<Rightarrow> decodeNodeMembers kvs (Node (Type cur) x (NodeURL cur) (Children cur)))
      else if matchesField (fst kv) ''url'' then
        (case decodeString (snd kv) (NodeURL cur) of None \<Rightarrow> None
         | Some x \<Rightarrow> decodeNodeMembers kvs (Node (Type cur) (NodeName cur) x (Children cur)))
      else if matchesField (fst kv) ''children'' then
        (case decodeChildren (snd kv) (Children cur) of None \<Rightarrow> None
         | Some ns \<Rightarrow> decodeNodeMembers kvs (Node (Type cur) (NodeName cur) (NodeURL cur) ns))
      else decodeNodeMembers kvs cur)"
| "decodeChildren JNull old = Some []"
| "decodeChildren (JArray js) old = decodeElems js old"
| "decodeChildren (JBool _) old = None"
| "decodeChildren (JNumber _) old = None"
| "decodeChildren (JString _) old = None"
| "decodeChildren (JObject _) old = None"
| "decodeElems [] old = Some []"
| "decodeElems (j # js) old =
     (case decodeNode j (case old of [] \<Rightarrow> zeroNode | n # _ \<Rightarrow> n) of None \<Rightarrow> None
      | Some n \<Rightarrow>
          (case decodeElems js (tl old) of None \<Rightarrow> None | Some ns \<Rightarrow> Some (n # ns)))"

text \<open>The map \<^verbatim>\<open>Roots\<close>: each entry decodes into a fresh node and is stored under its key.\<close>

fun decodeMapEntries ::
  "(string \<times> json) list \<Rightarrow> (string \<rightharpoonup> chromeBookmarkNode) \<Rightarrow> (string \<rightharpoonup> chromeBookmarkNode) option"
  where
  "decodeMapEntries [] m = Some m"
| "decodeMapEntries (kv # kvs) m =
     (case decodeNode (snd kv) zeroNode of None \<Rightarrow> None
      | Some n \<Rightarrow> decodeMapEntries kvs (m(fst kv \<mapsto> n)))"

fun decodeRoots ::
  "json \<Rightarrow> (string \<rightharpoonup> chromeBookmarkNode) \<Rightarrow> (string \<rightharpoonup> chromeBookmarkNode) option" where
  "decodeRoots JNull m = Some Map.empty"
| "decodeRoots (JObject kvs) m = decodeMapEntries kvs m"
| "decodeRoots _ m = None"

text \<open>The target struct \<^verbatim>\<open>root\<close>, whose one field is \<^verbatim>\<open>Roots\<close> with the tag \<^verbatim>\<open>roots\<close>.\<close>

fun decodeRootMembers ::
  "(string \<times> json) list \<Rightarrow> (string \<rightharpoonup> chromeBookmarkNode) \<Rightarrow> (string \<rightharpoonup> chromeBookmarkNode) option"
  where
  "decodeRootMembers [] m = Some m"
| "decodeRootMembers (kv # kvs) m =
     (if matchesField (fst kv) ''roots'' then
        (case decodeRoots (snd kv) m of None \<Rightarrow> None | Some m' \<Rightarrow> decodeRootMembers kvs m')
      else decodeRootMembers kvs m)"

fun Unmarshal_root :: "json \<Rightarrow> (string \<rightharpoonup> chromeBookmarkNode) option" where
  "Unmarshal_root JNull = Some Map.empty"
| "Unmarshal_root (JObject kvs) = decodeRootMembers kvs Map.empty"
| "Unmarshal_root _ = None"

text \<open>
  \<^verbatim>\<open>range\<close> over a Go map visits every key once, in an order the language leaves open. The
  order is an argument: \<open>rangeMap m order\<close> are the entries of \<open>m\<close> as a loop meets
  them when the keys come in \<open>order\<close>, and \<open>rangeOrder m order\<close> says that \<open>order\<close> is
  such an enumeration of the keys of \<open>m\<close>.
\<close>

definition rangeMap :: "('k \<rightharpoonup> 'v) \<Rightarrow> 'k list \<Rightarrow> ('k \<times> 'v) list" where
  "rangeMap m order = List.map_filter (\<lambda>k. map_option (Pair k) (m k)) order"

definition rangeOrder :: "('k \<rightharpoonup> 'v) \<Rightarrow> 'k list \<Rightarrow> bool" where
  "rangeOrder m order = (distinct order \<and> set order = dom m)"

subsection \<open>importFromChrome\<close>

text \<open>
  What \<^verbatim>\<open>os.ReadFile(path)\<close> returns is the argument \<open>file\<close>: \<open>None\<close> for an error,
  otherwise the bytes, which are either no JSON document or the document \<open>j\<close>. The result
  is the returned error (\<open>None\<close> for \<^verbatim>\<open>nil\<close>) and the state.
\<close>

datatype fileContent = NotJSON | JSON json

fun parseRoots :: "(string \<times> chromeBookmarkNode) list \<Rightarrow> AppState \<Rightarrow> AppState" where
  "parseRoots [] state = state"
| "parseRoots (kn # rest) state = parseRoots rest (parseChromeBookmarks (snd kn) state)"

definition importFromChrome ::
  "fileContent option \<Rightarrow> string list \<Rightarrow> AppState \<Rightarrow> error option \<times> AppState" where
  "importFromChrome file order state =
     (case file of
        None \<Rightarrow> (Some CouldNotReadFile, state)
      | Some NotJSON \<Rightarrow> (Some CouldNotParseJSON, state)
      | Some (JSON j) \<Rightarrow>
          (case Unmarshal_root j of
             None \<Rightarrow> (Some CouldNotParseJSON, state)
           | Some roots \<Rightarrow> (None, parseRoots (rangeMap roots order) state)))"

subsection \<open>importFromFirefox\<close>

text \<open>
  What the SQLite database at the path gives: \<^verbatim>\<open>sql.Open\<close> fails, \<^verbatim>\<open>db.Query\<close> fails, or
  the query delivers rows until \<^verbatim>\<open>rows.Next()\<close> is false; a row is \<open>None\<close> when
  \<^verbatim>\<open>rows.Scan\<close> returns an error for it (the loop skips it) and the scanned
  (title, url) otherwise.
\<close>

datatype firefoxDB = OpenFails | QueryFails | Rows "(string \<times> string) option list"

fun scanRows :: "(string \<times> string) option list \<Rightarrow> AppState \<Rightarrow> AppState" where
  "scanRows [] state = state"
| "scanRows (None # rows) state = scanRows rows state"
| "scanRows (Some (title, url) # rows) state = scanRows rows (addBookmark state title url)"

definition importFromFirefox :: "firefoxDB \<Rightarrow> AppState \<Rightarrow> error option \<times> AppState" where
  "importFromFirefox db state =
     (case db of
        OpenFails \<Rightarrow> (Some CouldNotOpenDB, state)
      | QueryFails \<Rightarrow> (Some CouldNotQuery, state)
      | Rows rows \<Rightarrow> (None, scanRows rows state))"

subsection \<open>The surroundings of the program\<close>

text \<open>
  A directory tree as \<^verbatim>\<open>filepath.WalkDir\<close> sees it: an entry that is no directory, with
  its name and with what \<^verbatim>\<open>importFromFirefox\<close> gets when it opens the entry as a
  database, or a directory with its name and the entries \<^verbatim>\<open>os.ReadDir\<close> lists, in the order
  it lists them (sorted by file name).
\<close>

datatype fsnode = File string firefoxDB | Dir string "fsnode list"

fun entryName :: "fsnode \<Rightarrow> string" where
  "entryName (File name db) = name"
| "entryName (Dir name entries) = name"

text \<open>
  What \<^verbatim>\<open>bookmarks.json\<close> holds when \<^verbatim>\<open>loadState\<close> reads it: no such file, a file that
  cannot be read, bytes that \<^verbatim>\<open>json.Unmarshal\<close> rejects, the document \<^verbatim>\<open>null\<close>, or an object,
  given by the bookmarks and the configuration that \<^verbatim>\<open>json.Unmarshal\<close> decodes from it (a
  member the document leaves out is the zero value). \<^verbatim>\<open>nextID\<close> is not exported and so is
  neither written nor read.
\<close>

datatype stateFile =
    NotExist
  | Unreadable
  | Malformed
  | JSONNull
  | Stored "Bookmark list" Config

text \<open>What the program prints (the wording and the colours left out) and what it does.\<close>

datatype event =
    NoStateFileFound
  | CheckedBrowser string
  | FirefoxImportFailed string error
  | CheckedFirefox
  | NoFirefoxDB
  | ImportedNew int
  | NoNewBookmarks
  | NoBrowserFound
  | BookmarkLine Bookmark bool
  | NoFavorites
  | NoBookmarks
  | UsageOpen
  | UsageFav
  | InvalidID
  | Opening string
  | IDNotFound
  | StartError
  | FavoriteToggled string bool
  | UsageSetBrowser string
  | BrowserSet string
  | SaveError error
  | StateSaved
  | Help
  | UnknownCommand string
  | Started string "string list"
  | Wrote "Bookmark list" Config

text \<open>
  Everything the program asks of the operating system and of Go's library without the
  source fixing the answer:
  \<^item> \<open>GOOS\<close>: \<^verbatim>\<open>runtime.GOOS\<close>;
  \<^item> \<open>CurrentUser\<close>: the home directory of \<^verbatim>\<open>user.Current()\<close>, \<open>None\<close> when the call fails
    (the source drops the error and reads \<^verbatim>\<open>usr.HomeDir\<close> of a nil pointer);
  \<^item> \<open>Join\<close>: \<^verbatim>\<open>filepath.Join\<close> of two elements;
  \<^item> \<open>Stat\<close>: whether \<^verbatim>\<open>os.Stat(path)\<close> returns no error;
  \<^item> \<open>ReadFile\<close>: \<^verbatim>\<open>os.ReadFile(path)\<close>, as \<open>importFromChrome\<close> takes it;
  \<^item> \<open>Lstat\<close>: the tree \<^verbatim>\<open>filepath.WalkDir\<close> finds at a path, \<open>None\<close> when it finds nothing;
  \<^item> \<open>rangeBrowsers\<close>, \<open>rangeRoots\<close>: the order in which \<^verbatim>\<open>range\<close> yields the keys of
    \<^verbatim>\<open>chromeLikePaths\<close>, and of \<^verbatim>\<open>root.Roots\<close> for the file at a path;
  \<^item> \<open>ToLower\<close>: \<^verbatim>\<open>strings.ToLower\<close>; \<open>SortSlice\<close>: \<^verbatim>\<open>sort.Slice\<close>, given the \<^verbatim>\<open>less\<close>
    function on elements;
  \<^item> \<open>StartFails\<close>: whether \<^verbatim>\<open>cmd.Start()\<close> returns an error for a command line;
  \<^item> \<open>WriteFileFails\<close>: whether \<^verbatim>\<open>os.WriteFile\<close> of \<^verbatim>\<open>bookmarks.json\<close> returns an error;
  \<^item> \<open>StateFile\<close>: \<^verbatim>\<open>bookmarks.json\<close> as \<^verbatim>\<open>loadState\<close> finds it.
\<close>

record world =
  GOOS :: string
  CurrentUser :: "string option"
  Join :: "string \<Rightarrow> string \<Rightarrow> string"
  Stat :: "string \<Rightarrow> bool"
  ReadFile :: "string \<Rightarrow> fileContent option"
  Lstat :: "string \<Rightarrow> fsnode option"
  rangeBrowsers :: "string list"
  rangeRoots :: "string \<Rightarrow> string list"
  ToLower :: "string \<Rightarrow> string"
  SortSlice :: "(Bookmark \<Rightarrow> Bookmark \<Rightarrow> bool) \<Rightarrow> Bookmark list \<Rightarrow> Bookmark list"
  StartFails :: "string \<Rightarrow> string list \<Rightarrow> bool"
  WriteFileFails :: bool
  StateFile :: stateFile

subsection \<open>saveState and loadState\<close>

text \<open>
  \<^verbatim>\<open>json.MarshalIndent\<close> cannot fail on an \<^verbatim>\<open>AppState\<close>; what is written is the exported
  part of the state.
\<close>

definition saveState :: "world \<Rightarrow> AppState \<Rightarrow> error option \<times> event list" where
  "saveState w s =
     (if WriteFileFails w then (Some CouldNotWriteState, [])
      else (None, [Wrote (Bookmarks s) (Config s)]))"

text \<open>The loop of \<^verbatim>\<open>loadState\<close> over the bookmarks, started with \<^verbatim>\<open>maxID := 0\<close>.\<close>

fun maxIDLoop :: "Bookmark list \<Rightarrow> go_int \<Rightarrow> go_int" where
  "maxIDLoop [] maxID = maxID"
| "maxIDLoop (b # bs) maxID = maxIDLoop bs (if sint maxID < sint (ID b) then ID b else maxID)"

text \<open>The result is the pair that Go returns (the state, the error) and what was printed and done.\<close>

definition loadState :: "world \<Rightarrow> (AppState option \<times> error option \<times> event list) outcome" where
  "loadState w =
     (case StateFile w of
        NotExist \<Rightarrow>
          (let state =
                 \<lparr>Bookmarks = [],
                  Config = \<lparr>DefaultBrowserCmd =
                    (if GOOS w = ''darwin'' then ''open''
                     else if GOOS w = ''linux'' then ''xdg-open''
                     else if GOOS w = ''windows'' then ''cmd /c start''
                     else '''')\<rparr>,
                  nextID = 1\<rparr>
           in Returns (Some state, fst (saveState w state),
                       NoStateFileFound # snd (saveState w state)))
      | Unreadable \<Rightarrow> Returns (None, Some CouldNotReadState, [])
      | Malformed \<Rightarrow> Returns (None, Some CouldNotUnmarshalState, [])
      | JSONNull \<Rightarrow> Panics NilPointerDereference
      | Stored bs cfg \<Rightarrow>
          Returns (Some \<lparr>Bookmarks = bs, Config = cfg,
                         nextID = (if length bs > 0 then maxIDLoop bs 0 + 1 else 1)\<rparr>,
                   None, []))"

subsection \<open>getBrowserPaths\<close>

definition getBrowserPaths ::
  "world \<Rightarrow> ((string \<rightharpoonup> string list) \<times> (string \<rightharpoonup> string)) outcome" where
  "getBrowserPaths w =
     (case CurrentUser w of
        None \<Rightarrow> Panics NilPointerDereference
      | Some homeDir \<Rightarrow>
          Returns
            (if GOOS w = ''darwin'' then
               (let appSupport = Join w homeDir ''Library/Application Support'' in
                ([''Chrome'' \<mapsto> [Join w appSupport ''Google/Chrome/Default/Bookmarks''],
                  ''Brave'' \<mapsto> [Join w appSupport ''BraveSoftware/Brave-Browser/Default/Bookmarks''],
                  ''Edge'' \<mapsto> [Join w appSupport ''Microsoft Edge/Default/Bookmarks'']],
                 [''firefox_dir'' \<mapsto> Join w appSupport ''Firefox/Profiles'']))
             else if GOOS w = ''linux'' then
               (let configDir = Join w homeDir ''.config'' in
                ([''Chrome'' \<mapsto> [Join w configDir ''google-chrome/Default/Bookmarks''],
                  ''Brave'' \<mapsto> [Join w configDir ''BraveSoftware/Brave-Browser/Default/Bookmarks'']],
                 [''firefox_dir'' \<mapsto> Join w homeDir ''.mozilla/firefox'']))
             else if GOOS w = ''windows'' then
               (let appData = Join w homeDir ''AppData/Local'' in
                ([''Chrome'' \<mapsto> [Join w appData ''Google/Chrome/User Data/Default/Bookmarks''],
                  ''Brave'' \<mapsto>
                    [Join w appData ''BraveSoftware/Brave-Browser/User Data/Default/Bookmarks''],
                  ''Edge'' \<mapsto> [Join w appData ''Microsoft/Edge/User Data/Default/Bookmarks'']],
                 [''firefox_dir'' \<mapsto> Join w homeDir ''AppData/Roaming/Mozilla/Firefox/Profiles'']))
             else (Map.empty, Map.empty)))"

subsection \<open>importBookmarks\<close>

text \<open>
  The variables of \<^verbatim>\<open>importBookmarks\<close> that its loops and the closure change: the state
  behind \<^verbatim>\<open>s\<close>, \<^verbatim>\<open>foundAnyBrowser\<close>, \<^verbatim>\<open>foundFirefoxDB\<close>, and what has been printed.
\<close>

record importRun =
  state :: AppState
  foundAnyBrowser :: bool
  foundFirefoxDB :: bool
  printed :: "event list"

text \<open>The inner loop \<^verbatim>\<open>for _, path := range paths\<close> and the outer one over the browsers.\<close>

fun chromePaths :: "world \<Rightarrow> string \<Rightarrow> string list \<Rightarrow> importRun \<Rightarrow> importRun" where
  "chromePaths w browser [] run = run"
| "chromePaths w browser (path # paths) run =
     chromePaths w browser paths
       (if Stat w path then
          (case importFromChrome (ReadFile w path) (rangeRoots w path) (state run) of
             (None, s') \<Rightarrow>
               run\<lparr>state := s', foundAnyBrowser := True,
                   printed := printed run @ [CheckedBrowser browser]\<rparr>
           | (Some importErr, s') \<Rightarrow> run\<lparr>state := s'\<rparr>)
        else run)"

fun chromeBrowsers :: "world \<Rightarrow> (string \<times> string list) list \<Rightarrow> importRun \<Rightarrow> importRun" where
  "chromeBrowsers w [] run = run"
| "chromeBrowsers w (bp # rest) run =
     chromeBrowsers w rest (chromePaths w (fst bp) (snd bp) run)"

text \<open>
  The closure handed to \<^verbatim>\<open>filepath.WalkDir\<close>, for the calls with \<^verbatim>\<open>err == nil\<close>; it returns
  \<^verbatim>\<open>nil\<close> or \<^verbatim>\<open>filepath.SkipDir\<close>. (Called with an error, it returns \<^verbatim>\<open>nil\<close> and changes
  nothing.)
\<close>

datatype walkErr = NilErr | SkipDir

fun walkFn :: "string \<Rightarrow> fsnode \<Rightarrow> importRun \<Rightarrow> walkErr \<times> importRun" where
  "walkFn path (Dir name entries) run = (NilErr, run)"
| "walkFn path (File name db) run =
     (if name = ''places.sqlite'' then
        (case importFromFirefox db (state run) of
           (Some importErr, s') \<Rightarrow>
             (SkipDir,
              run\<lparr>state := s', foundFirefoxDB := True,
                  printed := printed run @ [FirefoxImportFailed path importErr]\<rparr>)
         | (None, s') \<Rightarrow>
             (SkipDir,
              run\<lparr>state := s', foundFirefoxDB := True, foundAnyBrowser := True,
                  printed := printed run @ [CheckedFirefox]\<rparr>))
      else (NilErr, run))"

text \<open>
  \<^verbatim>\<open>filepath.WalkDir\<close> of Go's standard library, by its documentation and source: the
  function is called on an entry before the entries below it; \<^verbatim>\<open>SkipDir\<close> returned for a
  directory skips what is below it; \<^verbatim>\<open>SkipDir\<close> returned for any other entry ends the loop
  over the directory that holds the entry, and the walk of that directory returns \<^verbatim>\<open>nil\<close>
  to the loop over the directory above. (When \<^verbatim>\<open>os.ReadDir\<close> fails, the function is called
  once more with the error; this closure then returns \<^verbatim>\<open>nil\<close>, and the loop runs over the
  entries that were read.)
\<close>

fun walkDir :: "(string \<Rightarrow> string \<Rightarrow> string) \<Rightarrow> string \<Rightarrow> fsnode \<Rightarrow> importRun \<Rightarrow> walkErr \<times> importRun"
  and walkEntries ::
    "(string \<Rightarrow> string \<Rightarrow> string) \<Rightarrow> string \<Rightarrow> fsnode list \<Rightarrow> importRun \<Rightarrow> walkErr \<times> importRun"
  where
  "walkDir join path (File name db) run = walkFn path (File name db) run"
| "walkDir join path (Dir name entries) run =
     (case walkFn path (Dir name entries) run of
        (SkipDir, run') \<Rightarrow> (NilErr, run')
      | (NilErr, run') \<Rightarrow> walkEntries join path entries run')"
| "walkEntries join path [] run = (NilErr, run)"
| "walkEntries join path (d1 # rest) run =
     (case walkDir join (join path (entryName d1)) d1 run of
        (SkipDir, run') \<Rightarrow> (NilErr, run')
      | (NilErr, run') \<Rightarrow> walkEntries join path rest run')"

definition WalkDir :: "world \<Rightarrow> string \<Rightarrow> importRun \<Rightarrow> importRun" where
  "WalkDir w root run =
     (case Lstat w root of
        None \<Rightarrow> run
      | Some d \<Rightarrow> snd (walkDir (Join w) root d run))"

definition firefoxBlock :: "world \<Rightarrow> (string \<rightharpoonup> string) \<Rightarrow> importRun \<Rightarrow> importRun" where
  "firefoxBlock w firefoxDirs run =
     (case firefoxDirs ''firefox_dir'' of
        None \<Rightarrow> run
      | Some firefoxDir \<Rightarrow>
          (let run' = WalkDir w firefoxDir (run\<lparr>foundFirefoxDB := False\<rparr>) in
           if \<not> foundFirefoxDB run' then run'\<lparr>printed := printed run' @ [NoFirefoxDB]\<rparr>
           else run'))"

definition chromeBlock :: "world \<Rightarrow> (string \<rightharpoonup> string list) \<Rightarrow> AppState \<Rightarrow> importRun" where
  "chromeBlock w chromeLikePaths s =
     chromeBrowsers w (rangeMap chromeLikePaths (rangeBrowsers w))
       \<lparr>state = s, foundAnyBrowser = False, foundFirefoxDB = False, printed = []\<rparr>"

definition importBookmarks :: "world \<Rightarrow> AppState \<Rightarrow> (AppState \<times> event list) outcome" where
  "importBookmarks w s =
     (case getBrowserPaths w of
        Panics p \<Rightarrow> Panics p
      | Returns (chromeLikePaths, firefoxDirs) \<Rightarrow>
          (let initialCount = int (length (Bookmarks s));
               run = firefoxBlock w firefoxDirs (chromeBlock w chromeLikePaths s);
               newCount = int (length (Bookmarks (state run))) - initialCount
           in Returns
                (state run,
                 printed run @
                   [if newCount > 0 then ImportedNew newCount
                    else if foundAnyBrowser run then NoNewBookmarks
                    else NoBrowserFound])))"

subsection \<open>strings.Fields, strconv.Atoi, strings.Join\<close>

text \<open>
  \<^verbatim>\<open>strings.Fields\<close> splits around every run of white space (\<^verbatim>\<open>unicode.IsSpace\<close>). On the
  bytes of the string these are the six ASCII characters tab, line feed, vertical tab,
  form feed, carriage return and space, and the UTF-8 encodings of U+0085, U+00A0,
  U+1680, U+2000 to U+200A, U+2028, U+2029, U+202F, U+205F and U+3000. \<open>spaceLen s\<close> is
  the number of bytes of the white-space character that \<open>s\<close> starts with, and 0 when it
  starts with none.
\<close>

definition spaceLen :: "string \<Rightarrow> nat" where
  "spaceLen s =
     (if take 1 s \<in> {[CHR 0x09], [CHR 0x0A], [CHR 0x0B], [CHR 0x0C], [CHR 0x0D], [CHR 0x20]}
      then 1
      else if take 2 s \<in> {[CHR 0xC2, CHR 0x85], [CHR 0xC2, CHR 0xA0]} then 2
      else if take 3 s \<in> {[CHR 0xE1, CHR 0x9A, CHR 0x80], [CHR 0xE2, CHR 0x80, CHR 0xA8],
                          [CHR 0xE2, CHR 0x80, CHR 0xA9], [CHR 0xE2, CHR 0x80, CHR 0xAF],
                          [CHR 0xE2, CHR 0x81, CHR 0x9F], [CHR 0xE3, CHR 0x80, CHR 0x80]}
      then 3
      else if take 2 s = [CHR 0xE2, CHR 0x80] \<and> length s \<ge> 3 \<and>
              (0x80::nat) \<le> of_char (s ! 2) \<and> of_char (s ! 2) \<le> (0x8A::nat)
      then 3
      else 0)"

text \<open>\<open>fieldsFrom cur s\<close>: the fields of \<open>s\<close>, where \<open>cur\<close> is the field read so far.\<close>

function fieldsFrom :: "string \<Rightarrow> string \<Rightarrow> string list" where
  "fieldsFrom cur [] = (if cur = [] then [] else [cur])"
| "fieldsFrom cur (c # cs) =
     (if spaceLen (c # cs) = 0 then fieldsFrom (cur @ [c]) cs
      else (if cur = [] then [] else [cur]) @ fieldsFrom [] (drop (spaceLen (c # cs)) (c # cs)))"
  by pat_completeness auto
termination
  by (relation "measure (\<lambda>(cur, s). length s)") auto

definition Fields :: "string \<Rightarrow> string list" where
  "Fields s = fieldsFrom [] s"

text \<open>
  \<^verbatim>\<open>strconv.Atoi\<close>: an optional sign, then one or more decimal digits and nothing else,
  the value within the range of \<^verbatim>\<open>int\<close>; \<open>None\<close> stands for the returned error.
\<close>

definition isDigit :: "char \<Rightarrow> bool" where
  "isDigit c = ((48::nat) \<le> of_char c \<and> of_char c \<le> (57::nat))"

fun decimalValue :: "string \<Rightarrow> int \<Rightarrow> int" where
  "decimalValue [] n = n"
| "decimalValue (c # cs) n = decimalValue cs (n * 10 + (int (of_char c) - 48))"

definition Atoi :: "string \<Rightarrow> go_int option" where
  "Atoi s =
     (let neg = (take 1 s = ''-'');
          digits = (if take 1 s = ''-'' \<or> take 1 s = ''+'' then drop 1 s else s)
      in if digits = [] \<or> \<not> list_all isDigit digits then None
         else if neg then
           (if decimalValue digits 0 \<le> 2 ^ 63 then Some (word_of_int (- decimalValue digits 0))
            else None)
         else
           (if decimalValue digits 0 < 2 ^ 63 then Some (word_of_int (decimalValue digits 0))
            else None))"

fun joinStrings :: "string list \<Rightarrow> string \<Rightarrow> string" where
  "joinStrings [] sep = []"
| "joinStrings [x] sep = x"
| "joinStrings (x # y # xs) sep = x @ sep @ joinStrings (y # xs) sep"

subsection \<open>handleCommand\<close>

text \<open>
  The \<^verbatim>\<open>less\<close> function that \<^verbatim>\<open>handleCommand\<close> gives to \<^verbatim>\<open>sort.Slice\<close>; \<open><\<close> on strings is
  Go's, lexicographic on the bytes.
\<close>

definition lessByName :: "world \<Rightarrow> Bookmark \<Rightarrow> Bookmark \<Rightarrow> bool" where
  "lessByName w a b = (ToLower w (Name a) < ToLower w (Name b))"

text \<open>The printing loop of \<^verbatim>\<open>list\<close>: the lines, and \<^verbatim>\<open>count\<close>.\<close>

fun listLoop :: "bool \<Rightarrow> bool \<Rightarrow> Bookmark list \<Rightarrow> event list \<times> nat" where
  "listLoop showFavsOnly showLinksFormat [] = ([], 0)"
| "listLoop showFavsOnly showLinksFormat (b # bs) =
     (if showFavsOnly \<and> \<not> Favorite b then listLoop showFavsOnly showLinksFormat bs
      else (BookmarkLine b showLinksFormat # fst (listLoop showFavsOnly showLinksFormat bs),
            snd (listLoop showFavsOnly showLinksFormat bs) + 1))"

definition cmdList :: "world \<Rightarrow> AppState \<Rightarrow> string list \<Rightarrow> bool \<times> AppState \<times> event list" where
  "cmdList w s args =
     (let showFavsOnly = (length args > 0 \<and> hd args = ''fav'');
          showLinksFormat = (length args > 0 \<and> hd args \<noteq> ''fav'' \<and> hd args = ''links'');
          s' = s\<lparr>Bookmarks := SortSlice w (lessByName w) (Bookmarks s)\<rparr>;
          lines = listLoop showFavsOnly showLinksFormat (Bookmarks s')
      in (False, s',
          fst lines @
            (if snd lines = 0 then [if showFavsOnly then NoFavorites else NoBookmarks]
             else [])))"

text \<open>The first bookmark with the identifier, as the loops of \<^verbatim>\<open>open\<close> and \<^verbatim>\<open>fav\<close> find it.\<close>

fun findByID :: "Bookmark list \<Rightarrow> go_int \<Rightarrow> Bookmark option" where
  "findByID [] id' = None"
| "findByID (b # bs) id' = (if ID b = id' then Some b else findByID bs id')"

definition cmdOpen ::
  "world \<Rightarrow> AppState \<Rightarrow> string list \<Rightarrow> (bool \<times> AppState \<times> event list) outcome" where
  "cmdOpen w s args =
     (if length args < 1 then Returns (False, s, [UsageOpen])
      else
        (case Atoi (hd args) of
           None \<Rightarrow> Returns (False, s, [InvalidID])
         | Some id' \<Rightarrow>
             (case findByID (Bookmarks s) id' of
                None \<Rightarrow> Returns (False, s, [IDNotFound])
              | Some b \<Rightarrow>
                  (case Fields (DefaultBrowserCmd (Config s)) of
                     [] \<Rightarrow> Panics IndexOutOfRange
                   | cmd # cmdArgs \<Rightarrow>
                       Returns
                         (False, s,
                          [Opening (Name b), Started cmd (cmdArgs @ [URL b])] @
                            (if StartFails w cmd (cmdArgs @ [URL b]) then [StartError]
                             else []))))))"

fun favLoop :: "Bookmark list \<Rightarrow> go_int \<Rightarrow> Bookmark list \<times> event list" where
  "favLoop [] id' = ([], [IDNotFound])"
| "favLoop (b # bs) id' =
     (if ID b = id' then
        (b\<lparr>Favorite := \<not> Favorite b\<rparr> # bs, [FavoriteToggled (Name b) (\<not> Favorite b)])
      else (b # fst (favLoop bs id'), snd (favLoop bs id')))"

definition cmdFav :: "AppState \<Rightarrow> string list \<Rightarrow> bool \<times> AppState \<times> event list" where
  "cmdFav s args =
     (if length args < 1 then (False, s, [UsageFav])
      else
        (case Atoi (hd args) of
           None \<Rightarrow> (False, s, [InvalidID])
         | Some id' \<Rightarrow>
             (False, s\<lparr>Bookmarks := fst (favLoop (Bookmarks s) id')\<rparr>,
              snd (favLoop (Bookmarks s) id'))))"

definition handleCommand ::
  "world \<Rightarrow> AppState \<Rightarrow> string \<Rightarrow> (bool \<times> AppState \<times> event list) outcome" where
  "handleCommand w s input =
     (case Fields input of
        [] \<Rightarrow> Returns (False, s, [])
      | command # args \<Rightarrow>
          if command = ''list'' \<or> command = ''ls'' then Returns (cmdList w s args)
          else if command = ''open'' then cmdOpen w s args
          else if command = ''fav'' then Returns (cmdFav s args)
          else if command = ''import'' then
            (case importBookmarks w s of
               Panics p \<Rightarrow> Panics p
             | Returns (s', evs) \<Rightarrow> Returns (False, s', evs))
          else if command = ''set-browser'' then
            (if length args < 1 then
               Returns (False, s, [UsageSetBrowser (DefaultBrowserCmd (Config s))])
             else
               Returns
                 (False,
                  s\<lparr>Config := (Config s)\<lparr>DefaultBrowserCmd := joinStrings args '' ''\<rparr>\<rparr>,
                  [BrowserSet (joinStrings args '' '')]))
          else if command = ''save'' then
            (case saveState w s of
               (Some err, evs) \<Rightarrow> Returns (False, s, evs @ [SaveError err])
             | (None, evs) \<Rightarrow> Returns (False, s, evs @ [StateSaved]))
          else if command = ''help'' then Returns (False, s, [Help])
          else if command = ''exit'' \<or> command = ''quit'' then Returns (True, s, [])
          else Returns (False, s, [UnknownCommand command]))"

subsection \<open>Notions of the specification\<close>

text \<open>
  The specification speaks of sequences of merge calls, of the pre-order traversal of a
  bookmark tree, of the nodes that contribute a pair and of the sequence of pairs a tree
  flattens to. These follow its words, for comparison with the functions above.
\<close>

fun mergeAll :: "(string \<times> string) list \<Rightarrow> AppState \<Rightarrow> AppState" where
  "mergeAll [] s = s"
| "mergeAll (p # ps) s = mergeAll ps (addBookmark s (fst p) (snd p))"

fun preorder :: "chromeBookmarkNode \<Rightarrow> chromeBookmarkNode list" where
  "preorder (Node ty name url children) =
     Node ty name url children # concat (map preorder children)"

definition contributes :: "chromeBookmarkNode \<Rightarrow> bool" where
  "contributes n = (Type n = ''url'' \<and> NodeURL n \<noteq> '''')"

definition flattenPairs :: "chromeBookmarkNode \<Rightarrow> (string \<times> string) list" where
  "flattenPairs node = map (\<lambda>n. (NodeName n, NodeURL n)) (filter contributes (preorder node))"

text \<open>The number of URL leaves with a non-empty URL in a tree, counted node by node.\<close>

fun urlLeaves :: "chromeBookmarkNode \<Rightarrow> nat" where
  "urlLeaves (Node ty name url children) =
     (if ty = ''url'' \<and> url \<noteq> '''' then 1 else 0) + sum_list (map urlLeaves children)"

text \<open>The identifiers are unique; the next identifier exceeds every identifier in use.\<close>

definition uniqueIDs :: "AppState \<Rightarrow> bool" where
  "uniqueIDs s = distinct (map ID (Bookmarks s))"

definition nextIDAboveAll :: "AppState \<Rightarrow> bool" where
  "nextIDAboveAll s = list_all (\<lambda>b. sint (ID b) < sint (nextID s)) (Bookmarks s)"

text \<open>The pairs (name, URL) of a collection, in its order.\<close>

definition pairsOf :: "Bookmark list \<Rightarrow> (string \<times> string) list" where
  "pairsOf bs = map (\<lambda>b. (Name b, URL b)) bs"

subsection \<open>Example inputs\<close>

text \<open>
  The scenario of the specification: an empty collection with next identifier 1, and
  the bookmark file
  \<^verbatim>\<open>{"roots": {"bookmark_bar": {"type": "folder", "children": [
      {"type": "url", "name": "A", "url": "http://a"},
      {"type": "folder", "children": [{"type": "url", "name": "B", "url": "http://b"}]}]}}}\<close>
  as a document and as the tree it decodes to.
\<close>

definition emptyState :: AppState where
  "emptyState = \<lparr>Bookmarks = [], Config = \<lparr>DefaultBrowserCmd = ''xdg-open''\<rparr>, nextID = 1\<rparr>"

definition exampleDoc :: json where
  "exampleDoc =
     JObject [(''roots'', JObject [(''bookmark_bar'',
       JObject [(''type'', JString ''folder''),
                (''children'', JArray
                   [JObject [(''type'', JString ''url''), (''name'', JString ''A''),
                             (''url'', JString ''http://a'')],
                    JObject [(''type'', JString ''folder''),
                             (''children'', JArray
                                [JObject [(''type'', JString ''url''), (''name'', JString ''B''),
                                          (''url'', JString ''http://b'')]])]])])])]"

definition exampleTree :: chromeBookmarkNode where
  "exampleTree =
     Node ''folder'' '''' ''''
       [Node ''url'' ''A'' ''http://a'' [],
        Node ''folder'' '''' '''' [Node ''url'' ''B'' ''http://b'' []]]"

text \<open>
  A Linux machine of a user with the home directory \<^verbatim>\<open>/home/u\<close>: Chrome's bookmark file
  holds the document above, and the Firefox directory has two profiles, each with a
  \<^verbatim>\<open>places.sqlite\<close>. \<open>asciiLower\<close> and \<open>insertionSort\<close> stand in for \<^verbatim>\<open>strings.ToLower\<close> and
  \<^verbatim>\<open>sort.Slice\<close>.
\<close>

definition asciiLower :: "string \<Rightarrow> string" where
  "asciiLower s =
     map (\<lambda>c. if (65::nat) \<le> of_char c \<and> of_char c \<le> (90::nat)
               then char_of (of_char c + (32::nat)) else c) s"

fun insertBy :: "('a \<Rightarrow> 'a \<Rightarrow> bool) \<Rightarrow> 'a \<Rightarrow> 'a list \<Rightarrow> 'a list" where
  "insertBy lt x [] = [x]"
| "insertBy lt x (y # ys) = (if lt x y then x # y # ys else y # insertBy lt x ys)"

fun insertionSort :: "('a \<Rightarrow> 'a \<Rightarrow> bool) \<Rightarrow> 'a list \<Rightarrow> 'a list" where
  "insertionSort lt [] = []"
| "insertionSort lt (x # xs) = insertBy lt x (insertionSort lt xs)"

definition exampleProfiles :: fsnode where
  "exampleProfiles =
     Dir ''firefox''
       [Dir ''a.default''
          [File ''cookies.sqlite'' QueryFails,
           File ''places.sqlite'' (Rows [Some (''Site A'', ''http://a''), None,
                                         Some (''Site C'', ''http://c'')]),
           File ''prefs.js'' OpenFails],
        Dir ''b.default-release''
          [File ''places.sqlite'' (Rows [Some (''Site D'', ''http://d'')])],
        File ''profiles.ini'' OpenFails]"

definition exampleWorld :: world where
  "exampleWorld =
     \<lparr>GOOS = ''linux'',
      CurrentUser = Some ''/home/u'',
      Join = (\<lambda>a b. a @ ''/'' @ b),
      Stat = (\<lambda>p. p = ''/home/u/.config/google-chrome/Default/Bookmarks''),
      ReadFile = (\<lambda>p. if p = ''/home/u/.config/google-chrome/Default/Bookmarks''
                        then Some (JSON exampleDoc) else None),
      Lstat = (\<lambda>p. if p = ''/home/u/.mozilla/firefox'' then Some exampleProfiles else None),
      rangeBrowsers = [''Brave'', ''Chrome''],
      rangeRoots = (\<lambda>p. [''bookmark_bar'']),
      ToLower = asciiLower,
      SortSlice = insertionSort,
      StartFails = (\<lambda>cmd args. False),
      WriteFileFails = False,
      StateFile = NotExist\<rparr>"

text \<open>
  A collection that holds a bookmark the user has renamed and marked as a favorite, and
  the same machine with a Firefox database that cannot be queried.
\<close>

definition favoriteState :: AppState where
  "favoriteState =
     \<lparr>Bookmarks = [\<lparr>ID = 7, Name = ''My site'', URL = ''http://b'', Favorite = True\<rparr>],
      Config = \<lparr>DefaultBrowserCmd = ''xdg-open''\<rparr>, nextID = 8\<rparr>"

definition corruptFirefoxWorld :: world where
  "corruptFirefoxWorld =
     exampleWorld\<lparr>Lstat := (\<lambda>p. if p = ''/home/u/.mozilla/firefox''
       then Some (Dir ''firefox'' [Dir ''a.default'' [File ''places.sqlite'' QueryFails]])
       else None)\<rparr>"

text \<open>
  States as \<open>loadState\<close> returns them for a \<^verbatim>\<open>bookmarks.json\<close> edited by hand: one with the
  identifiers -9223372036854775808 and 9223372036854775806, and the file of one bookmark
  with the identifier -5.
\<close>

definition wrapState :: AppState where
  "wrapState =
     \<lparr>Bookmarks =
        [\<lparr>ID = - 9223372036854775808, Name = ''m'', URL = ''http://m'', Favorite = False\<rparr>,
         \<lparr>ID = 9223372036854775806, Name = ''n'', URL = ''http://n'', Favorite = False\<rparr>],
      Config = \<lparr>DefaultBrowserCmd = ''xdg-open''\<rparr>, nextID = 9223372036854775807\<rparr>"

definition negativeIDFile :: stateFile where
  "negativeIDFile =
     Stored [\<lparr>ID = - 5, Name = ''m'', URL = ''http://m'', Favorite = False\<rparr>]
            \<lparr>DefaultBrowserCmd = ''xdg-open''\<rparr>"

text \<open>
  What the documentation of \<^verbatim>\<open>sort.Slice\<close> promises for the \<^verbatim>\<open>less\<close> function of
  \<^verbatim>\<open>handleCommand\<close>: the slice afterwards holds the elements it held, ordered by the
  lower-cased name. (The order among equal names is left open: the sort is not stable.)
\<close>

definition sortSliceContract :: "world \<Rightarrow> bool" where
  "sortSliceContract w =
     (\<forall>bs. mset (SortSlice w (lessByName w) bs) = mset bs \<and>
           sorted (map (\<lambda>b. ToLower w (Name b)) (SortSlice w (lessByName w) bs)))"

text \<open>A collection in the order of insertion, and a directory whose entries go on after the database.\<close>

definition unsortedState :: AppState where
  "unsortedState =
     \<lparr>Bookmarks = [\<lparr>ID = 1, Name = ''zeta'', URL = ''http://z'', Favorite = False\<rparr>,
                   \<lparr>ID = 2, Name = ''Alpha'', URL = ''http://a'', Favorite = True\<rparr>,
                   \<lparr>ID = 3, Name = ''beta'', URL = ''http://b'', Favorite = False\<rparr>],
      Config = \<lparr>DefaultBrowserCmd = ''''\<rparr>, nextID = 4\<rparr>"

definition freshRun :: importRun where
  "freshRun = \<lparr>state = emptyState, foundAnyBrowser = False, foundFirefoxDB = False, printed = []\<rparr>"

text \<open>The same machine under an operating system that \<^verbatim>\<open>loadState\<close> has no command for.\<close>

definition unknownOSWorld :: world where
  "unknownOSWorld = exampleWorld\<lparr>GOOS := ''plan9''\<rparr>"

section \<open>Properties\<close>

subsection \<open>Helper facts about merging\<close>

lemma urlExists_iff: "urlExists bs url \<longleftrightarrow> (\<exists>b\<in>set bs. URL b = url)"
  by (induction bs) auto

lemma addBookmark_prefix: "prefix (Bookmarks s) (Bookmarks (addBookmark s n u))"
  by (simp add: addBookmark_def)

lemma addBookmark_urls:
  "URL ` set (Bookmarks (addBookmark s n u)) = insert u (URL ` set (Bookmarks s))"
  by (auto simp: addBookmark_def urlExists_iff)

lemma addBookmark_known: "u \<in> URL ` set (Bookmarks s) \<Longrightarrow> addBookmark s n u = s"
  by (auto simp: addBookmark_def urlExists_iff)

lemma mergeAll_append: "mergeAll (ps @ qs) s = mergeAll qs (mergeAll ps s)"
  by (induction ps arbitrary: s) auto

lemma mergeAll_prefix: "prefix (Bookmarks s) (Bookmarks (mergeAll ps s))"
proof (induction ps arbitrary: s)
  case Nil
  show ?case by simp
next
  case (Cons p ps)
  have "prefix (Bookmarks s) (Bookmarks (addBookmark s (fst p) (snd p)))"
    by (rule addBookmark_prefix)
  also have "prefix \<dots> (Bookmarks (mergeAll ps (addBookmark s (fst p) (snd p))))"
    by (rule Cons.IH)
  finally show ?case by simp
qed

lemma mergeAll_urls:
  "URL ` set (Bookmarks (mergeAll ps s)) = snd ` set ps \<union> URL ` set (Bookmarks s)"
  by (induction ps arbitrary: s) (auto simp: addBookmark_urls)

lemma mergeAll_known:
  "snd ` set ps \<subseteq> URL ` set (Bookmarks s) \<Longrightarrow> mergeAll ps s = s"
  by (induction ps arbitrary: s) (auto simp: addBookmark_known)

lemma mergeAll_twice:
  assumes "set qs \<subseteq> set ps"
  shows "mergeAll qs (mergeAll ps s) = mergeAll ps s"
proof (rule mergeAll_known)
  show "snd ` set qs \<subseteq> URL ` set (Bookmarks (mergeAll ps s))"
    using assms by (auto simp: mergeAll_urls)
qed

lemma mergeAll_fresh:
  "distinct (map snd ps) \<Longrightarrow> snd ` set ps \<inter> URL ` set (Bookmarks s) = {} \<Longrightarrow>
   pairsOf (Bookmarks (mergeAll ps s)) = pairsOf (Bookmarks s) @ ps"
proof (induction ps arbitrary: s)
  case Nil
  show ?case by simp
next
  case (Cons p ps)
  have new: "snd p \<notin> URL ` set (Bookmarks s)" using Cons.prems by auto
  have "snd ` set ps \<inter> URL ` set (Bookmarks (addBookmark s (fst p) (snd p))) = {}"
    using Cons.prems by (auto simp: addBookmark_urls)
  moreover have "distinct (map snd ps)" using Cons.prems by simp
  ultimately have "pairsOf (Bookmarks (mergeAll ps (addBookmark s (fst p) (snd p))))
      = pairsOf (Bookmarks (addBookmark s (fst p) (snd p))) @ ps"
    by (rule Cons.IH [rotated])
  moreover have "pairsOf (Bookmarks (addBookmark s (fst p) (snd p))) = pairsOf (Bookmarks s) @ [p]"
    using new by (force simp: addBookmark_def urlExists_iff pairsOf_def)
  ultimately show ?case by simp
qed

subsection \<open>Helper facts about the Chromium tree\<close>

text \<open>
  The recursion of \<open>parseChromeBookmarks\<close> merges, one after the other, the pairs that
  the tree flattens to.
\<close>

lemma parse_is_mergeAll:
  "parseChromeBookmarks node s = mergeAll (flattenPairs node) s"
  "parseChildren children s = mergeAll (concat (map flattenPairs children)) s"
proof (induction node s and children s rule: parseChromeBookmarks_parseChildren.induct)
  case (1 ty name url children state)
  then show ?case
    by (simp add: flattenPairs_def contributes_def filter_concat map_concat comp_def)
next
  case (2 state)
  show ?case by simp
next
  case (3 child rest state)
  then show ?case by (simp add: mergeAll_append)
qed

lemma length_flattenPairs: "length (flattenPairs node) = urlLeaves node"
proof (induction node rule: urlLeaves.induct)
  case (1 ty name url children)
  have "map (\<lambda>n. length (filter contributes (preorder n))) children = map urlLeaves children"
    by (rule map_cong [OF refl]) (use 1 in \<open>simp add: flattenPairs_def\<close>)
  then have "sum_list (map (\<lambda>n. length (filter contributes (preorder n))) children)
      = sum_list (map urlLeaves children)"
    by (rule arg_cong)
  then show ?case
    by (simp add: flattenPairs_def contributes_def filter_concat length_concat comp_def)
qed

lemma parseRoots_is_mergeAll:
  "parseRoots roots s = mergeAll (concat (map (\<lambda>kn. flattenPairs (snd kn)) roots)) s"
  by (induction roots arbitrary: s) (simp_all add: parse_is_mergeAll mergeAll_append)

lemma set_rangeMap: "set (rangeMap m order) = {(k, v). k \<in> set order \<and> m k = Some v}"
  by (induction order) (auto simp: rangeMap_def split: option.splits)

subsection \<open>Helper facts: an import only appends\<close>

lemma importFromChrome_prefix:
  "prefix (Bookmarks s) (Bookmarks (snd (importFromChrome file order s)))"
  by (simp add: importFromChrome_def parseRoots_is_mergeAll mergeAll_prefix
           split: option.splits fileContent.splits)

lemma chromePaths_prefix:
  "prefix (Bookmarks (state run)) (Bookmarks (state (chromePaths w browser paths run)))"
proof (induction paths arbitrary: run)
  case Nil
  show ?case by simp
next
  case (Cons path paths)
  let ?r = "(if Stat w path then
          (case importFromChrome (ReadFile w path) (rangeRoots w path) (state run) of
             (None, s') \<Rightarrow>
               run\<lparr>state := s', foundAnyBrowser := True,
                   printed := printed run @ [CheckedBrowser browser]\<rparr>
           | (Some importErr, s') \<Rightarrow> run\<lparr>state := s'\<rparr>)
        else run)"
  have "state ?r = state run \<or>
        state ?r = snd (importFromChrome (ReadFile w path) (rangeRoots w path) (state run))"
    by (auto split: prod.splits option.splits)
  then have "prefix (Bookmarks (state run)) (Bookmarks (state ?r))"
    using importFromChrome_prefix [of "state run" "ReadFile w path" "rangeRoots w path"]
    by auto
  also have "prefix \<dots> (Bookmarks (state (chromePaths w browser paths ?r)))"
    by (rule Cons.IH)
  finally show ?case by simp
qed

lemma chromeBrowsers_prefix:
  "prefix (Bookmarks (state run)) (Bookmarks (state (chromeBrowsers w bps run)))"
proof (induction bps arbitrary: run)
  case Nil
  show ?case by simp
next
  case (Cons bp bps)
  have "prefix (Bookmarks (state run)) (Bookmarks (state (chromePaths w (fst bp) (snd bp) run)))"
    by (rule chromePaths_prefix)
  also have "prefix \<dots>
      (Bookmarks (state (chromeBrowsers w bps (chromePaths w (fst bp) (snd bp) run))))"
    by (rule Cons.IH)
  finally show ?case by simp
qed

lemma chromeBlock_prefix:
  "prefix (Bookmarks s) (Bookmarks (state (chromeBlock w chromeLikePaths s)))"
  using chromeBrowsers_prefix
    [of "\<lparr>state = s, foundAnyBrowser = False, foundFirefoxDB = False, printed = []\<rparr>" w]
  by (simp add: chromeBlock_def)

lemma scanRows_prefix: "prefix (Bookmarks s) (Bookmarks (scanRows rows s))"
proof (induction rows s rule: scanRows.induct)
  case (3 title url rows state)
  have "prefix (Bookmarks state) (Bookmarks (addBookmark state title url))"
    by (rule addBookmark_prefix)
  also note 3
  finally show ?case by simp
qed simp_all

lemma importFromFirefox_prefix:
  "prefix (Bookmarks s) (Bookmarks (snd (importFromFirefox db s)))"
  by (simp add: importFromFirefox_def scanRows_prefix split: firefoxDB.splits)

lemma importFromFirefox_error:
  "fst (importFromFirefox db s) \<noteq> None \<Longrightarrow> snd (importFromFirefox db s) = s"
  by (simp add: importFromFirefox_def split: firefoxDB.splits)

lemma walkFn_prefix:
  "prefix (Bookmarks (state run)) (Bookmarks (state (snd (walkFn path d run))))"
proof (cases d)
  case (File name db)
  show ?thesis
    using importFromFirefox_prefix [of "state run" db]
    by (auto simp: File split: prod.splits option.splits)
next
  case (Dir name entries)
  then show ?thesis by simp
qed

lemma walk_prefix:
  "prefix (Bookmarks (state run)) (Bookmarks (state (snd (walkDir join path d run))))"
  "prefix (Bookmarks (state run)) (Bookmarks (state (snd (walkEntries join path ds run))))"
proof (induction join path d run and join path ds run rule: walkDir_walkEntries.induct)
  case (1 join path name db run)
  show ?case using walkFn_prefix [of run path "File name db"] by simp
next
  case (2 join path name entries run)
  then show ?case by simp
next
  case (3 join path run)
  show ?case by simp
next
  case (4 join path d1 rest run)
  obtain e r where w: "walkDir join (join path (entryName d1)) d1 run = (e, r)"
    by (cases "walkDir join (join path (entryName d1)) d1 run")
  have p1: "prefix (Bookmarks (state run)) (Bookmarks (state r))"
    using 4(1) w by simp
  show ?case
  proof (cases e)
    case NilErr
    have "prefix (Bookmarks (state r)) (Bookmarks (state (snd (walkEntries join path rest r))))"
      using 4(2) [OF w [symmetric]] NilErr by simp
    with p1 show ?thesis using w NilErr by (auto intro: prefix_order.trans)
  next
    case SkipDir
    with p1 w show ?thesis by simp
  qed
qed

lemma firefoxBlock_prefix:
  "prefix (Bookmarks (state run)) (Bookmarks (state (firefoxBlock w firefoxDirs run)))"
  using walk_prefix(1) [of "run\<lparr>foundFirefoxDB := False\<rparr>" "Join w"]
  by (simp add: firefoxBlock_def WalkDir_def Let_def split: option.splits)

subsection \<open>Helper facts about identifiers\<close>

lemma sint_succ:
  fixes x :: go_int
  assumes "sint x < 2 ^ 63 - 1"
  shows "sint (x + 1) = sint x + 1"
proof -
  have "- (2 ^ 63) \<le> sint x" using sint_ge [of x] by simp
  then show ?thesis
    using assms by (simp add: sint_word_ariths signed_take_bit_int_eq_self)
qed

lemma addBookmark_inv:
  assumes u: "uniqueIDs s" and a: "nextIDAboveAll s" and b: "sint (nextID s) < 2 ^ 63 - 1"
  shows "uniqueIDs (addBookmark s n url) \<and> nextIDAboveAll (addBookmark s n url) \<and>
         sint (nextID (addBookmark s n url)) \<le> sint (nextID s) + 1"
proof (cases "urlExists (Bookmarks s) url")
  case True
  with u a show ?thesis by (simp add: addBookmark_def)
next
  case False
  have below: "\<forall>b\<in>set (Bookmarks s). sint (ID b) < sint (nextID s)"
    using a by (simp add: nextIDAboveAll_def list_all_iff)
  then have fresh: "nextID s \<notin> ID ` set (Bookmarks s)" by auto
  have nxt: "sint (nextID s + 1) = sint (nextID s) + 1" using b by (rule sint_succ)
  have "uniqueIDs (addBookmark s n url)"
    using u fresh False by (simp add: addBookmark_def uniqueIDs_def)
  moreover have "nextIDAboveAll (addBookmark s n url)"
    using below False nxt by (auto simp: addBookmark_def nextIDAboveAll_def list_all_iff)
  moreover have "sint (nextID (addBookmark s n url)) \<le> sint (nextID s) + 1"
    using False nxt by (simp add: addBookmark_def)
  ultimately show ?thesis by blast
qed

lemma maxIDLoop_eq:
  "sint (maxIDLoop bs m) = Max (insert (sint m) ((\<lambda>b. sint (ID b)) ` set bs))"
proof (induction bs arbitrary: m)
  case Nil
  show ?case by simp
next
  case (Cons b bs)
  let ?S = "(\<lambda>b. sint (ID b)) ` set bs"
  have fin: "finite ?S" by simp
  have two: "Max (insert (sint m) (insert (sint (ID b)) ?S))
      = Max (insert (if sint m < sint (ID b) then sint (ID b) else sint m) ?S)"
  proof (cases "?S = {}")
    case True
    then show ?thesis by (simp add: max_def)
  next
    case False
    with fin show ?thesis by (simp add: max_def)
  qed
  show ?case
    by (simp add: Cons.IH two if_distrib [of sint] del: Max_insert)
qed

subsection \<open>Helper facts: the example inputs evaluated\<close>

lemma Unmarshal_root_exampleDoc:
  "Unmarshal_root exampleDoc = Some [''bookmark_bar'' \<mapsto> exampleTree]"
  by (simp add: exampleDoc_def exampleTree_def matchesField_def upperASCII_def zeroNode_def)

lemma getBrowserPaths_exampleWorld:
  "getBrowserPaths exampleWorld = Returns
     ([''Chrome'' \<mapsto> [''/home/u/.config/google-chrome/Default/Bookmarks''],
       ''Brave'' \<mapsto> [''/home/u/.config/BraveSoftware/Brave-Browser/Default/Bookmarks'']],
      [''firefox_dir'' \<mapsto> ''/home/u/.mozilla/firefox''])"
  by (simp add: getBrowserPaths_def exampleWorld_def)

lemma getBrowserPaths_corruptFirefoxWorld:
  "getBrowserPaths corruptFirefoxWorld = getBrowserPaths exampleWorld"
  by (simp add: getBrowserPaths_def corruptFirefoxWorld_def exampleWorld_def)

lemma importBookmarks_corruptFirefoxWorld:
  "importBookmarks corruptFirefoxWorld favoriteState = Returns
     (\<lparr>Bookmarks = [\<lparr>ID = 7, Name = ''My site'', URL = ''http://b'', Favorite = True\<rparr>,
                    \<lparr>ID = 8, Name = ''A'', URL = ''http://a'', Favorite = False\<rparr>],
       Config = \<lparr>DefaultBrowserCmd = ''xdg-open''\<rparr>, nextID = 9\<rparr>,
      [CheckedBrowser ''Chrome'',
       FirefoxImportFailed ''/home/u/.mozilla/firefox/a.default/places.sqlite'' CouldNotQuery,
       ImportedNew 1])"
  by (simp add: importBookmarks_def getBrowserPaths_corruptFirefoxWorld
        getBrowserPaths_exampleWorld chromeBlock_def firefoxBlock_def rangeMap_def WalkDir_def
        Let_def)
     (simp add: corruptFirefoxWorld_def exampleWorld_def importFromChrome_def
        Unmarshal_root_exampleDoc rangeMap_def exampleTree_def addBookmark_def
        importFromFirefox_def favoriteState_def)

subsection \<open>The merge policy\<close>

text \<open>
  C3. For every state and every (name, url): when some stored bookmark has exactly this
  URL (byte-for-byte equality), \<open>addBookmark\<close> returns the state as it was; when none
  has, it returns the state with one bookmark appended, whose identifier is the state's
  \<open>nextID\<close>, whose name and URL are the given ones and whose favorite flag is false;
  the earlier bookmarks and the configuration are as before, and \<open>nextID\<close> has advanced
  by one.
\<close>

theorem addBookmark_merge_policy:
  "((\<exists>b\<in>set (Bookmarks s). URL b = url) \<longrightarrow> addBookmark s name url = s) \<and>
   ((\<forall>b\<in>set (Bookmarks s). URL b \<noteq> url) \<longrightarrow>
      addBookmark s name url =
        s\<lparr>Bookmarks :=
            Bookmarks s @ [\<lparr>ID = nextID s, Name = name, URL = url, Favorite = False\<rparr>],
          nextID := nextID s + 1\<rparr>)"
  by (auto simp: addBookmark_def urlExists_iff)

theorem addBookmark_merge_policy_witness:
  "addBookmark
     \<lparr>Bookmarks = [\<lparr>ID = 1, Name = ''A'', URL = ''http://a'', Favorite = True\<rparr>],
      Config = \<lparr>DefaultBrowserCmd = ''xdg-open''\<rparr>, nextID = 2\<rparr> ''Site A'' ''http://a''
   = \<lparr>Bookmarks = [\<lparr>ID = 1, Name = ''A'', URL = ''http://a'', Favorite = True\<rparr>],
      Config = \<lparr>DefaultBrowserCmd = ''xdg-open''\<rparr>, nextID = 2\<rparr> \<and>
   addBookmark
     \<lparr>Bookmarks = [\<lparr>ID = 1, Name = ''A'', URL = ''http://a'', Favorite = True\<rparr>],
      Config = \<lparr>DefaultBrowserCmd = ''xdg-open''\<rparr>, nextID = 2\<rparr> ''Site C'' ''http://A''
   = \<lparr>Bookmarks = [\<lparr>ID = 1, Name = ''A'', URL = ''http://a'', Favorite = True\<rparr>,
                   \<lparr>ID = 2, Name = ''Site C'', URL = ''http://A'', Favorite = False\<rparr>],
      Config = \<lparr>DefaultBrowserCmd = ''xdg-open''\<rparr>, nextID = 3\<rparr>"
  using addBookmark_merge_policy
          [of "\<lparr>Bookmarks = [\<lparr>ID = 1, Name = ''A'', URL = ''http://a'', Favorite = True\<rparr>],
                Config = \<lparr>DefaultBrowserCmd = ''xdg-open''\<rparr>, nextID = 2\<rparr>"
              "''http://a''" "''Site A''"]
        addBookmark_merge_policy
          [of "\<lparr>Bookmarks = [\<lparr>ID = 1, Name = ''A'', URL = ''http://a'', Favorite = True\<rparr>],
                Config = \<lparr>DefaultBrowserCmd = ''xdg-open''\<rparr>, nextID = 2\<rparr>"
              "''http://A''" "''Site C''"]
  by simp

subsection \<open>Identifiers stay unique\<close>

text \<open>
  C4, as stated, fails where the counter wraps around: from the state \<open>wrapState\<close>
  (identifiers unique, \<open>nextID\<close> = 9223372036854775807 above both of them) one merge
  stores the identifier 9223372036854775807 and leaves \<open>nextID\<close> at
  -9223372036854775808, which is not above it, and a second merge gives that identifier
  to a second bookmark.
\<close>

theorem mergeAll_wraps_counterexample:
  "uniqueIDs wrapState \<and> nextIDAboveAll wrapState \<and>
   \<not> nextIDAboveAll (mergeAll [(''x'', ''http://x'')] wrapState) \<and>
   \<not> uniqueIDs (mergeAll [(''x'', ''http://x''), (''y'', ''http://y'')] wrapState)"
  by (simp add: wrapState_def uniqueIDs_def nextIDAboveAll_def addBookmark_def)

text \<open>
  C4, amended. For every starting state whose identifiers are unique and whose \<open>nextID\<close>
  exceeds every identifier in it, and every sequence of merge calls short enough that
  \<open>nextID\<close> plus its length stays within the largest \<^verbatim>\<open>int\<close> (2^63 - 1): after the
  sequence the identifiers are unique and \<open>nextID\<close> exceeds every one of them.
\<close>

theorem mergeAll_keeps_ids:
  assumes "uniqueIDs s" and "nextIDAboveAll s"
    and "sint (nextID s) + int (length ps) \<le> 2 ^ 63 - 1"
  shows "uniqueIDs (mergeAll ps s) \<and> nextIDAboveAll (mergeAll ps s)"
  using assms
proof (induction ps arbitrary: s)
  case Nil
  then show ?case by simp
next
  case (Cons p ps)
  have b: "sint (nextID s) < 2 ^ 63 - 1" using Cons.prems(3) by simp
  note step = addBookmark_inv [OF Cons.prems(1,2) b, of "fst p" "snd p"]
  have "sint (nextID (addBookmark s (fst p) (snd p))) + int (length ps) \<le> 2 ^ 63 - 1"
    using step Cons.prems(3) by simp
  with step show ?case by (simp add: Cons.IH)
qed

theorem mergeAll_keeps_ids_witness:
  "uniqueIDs favoriteState \<and> nextIDAboveAll favoriteState \<and>
   uniqueIDs (mergeAll [(''Site A'', ''http://a''), (''Site B'', ''http://b''),
                        (''Site C'', ''http://c'')] favoriteState) \<and>
   nextIDAboveAll (mergeAll [(''Site A'', ''http://a''), (''Site B'', ''http://b''),
                             (''Site C'', ''http://c'')] favoriteState)"
proof -
  have u: "uniqueIDs favoriteState" by (simp add: favoriteState_def uniqueIDs_def)
  have a: "nextIDAboveAll favoriteState" by (simp add: favoriteState_def nextIDAboveAll_def)
  have b: "sint (nextID favoriteState)
      + int (length [(''Site A'', ''http://a''), (''Site B'', ''http://b''),
                     (''Site C'', ''http://c'')]) \<le> 2 ^ 63 - 1"
    by (simp add: favoriteState_def)
  show ?thesis using u a mergeAll_keeps_ids [OF u a b] by simp
qed

subsection \<open>The next identifier after loading\<close>

text \<open>
  C5, as stated, fails for identifiers below zero, because the loop of \<open>loadState\<close>
  starts from \<^verbatim>\<open>maxID := 0\<close>: for the file with the one identifier -5 the next
  identifier is 1, while the largest identifier plus one is -4.
\<close>

theorem loadState_negative_counterexample:
  "loadState (exampleWorld\<lparr>StateFile := negativeIDFile\<rparr>)
     = Returns (Some \<lparr>Bookmarks = [\<lparr>ID = - 5, Name = ''m'', URL = ''http://m'', Favorite = False\<rparr>],
                      Config = \<lparr>DefaultBrowserCmd = ''xdg-open''\<rparr>, nextID = 1\<rparr>,
                None, []) \<and>
   Max ((\<lambda>b. sint (ID b))
          ` set [\<lparr>ID = - 5, Name = ''m'', URL = ''http://m'', Favorite = False\<rparr>]) + 1 = - 4"
  by (simp add: loadState_def negativeIDFile_def)

text \<open>
  C5, amended. Whenever \<open>loadState\<close> decodes a collection from the file, it returns
  that collection with the next identifier computed from it (the file cannot hold one):
  1 when the collection is empty, and otherwise the largest of 0 and the identifiers,
  plus one, in the wrap-around arithmetic of \<^verbatim>\<open>int\<close>. This is the largest identifier plus
  one whenever that identifier is at least 0 and below 2^63 - 1, and it is 1 when every
  identifier is below zero.
\<close>

theorem loadState_nextID:
  assumes "StateFile w = Stored bs cfg"
  shows "\<exists>s. loadState w = Returns (Some s, None, []) \<and> Bookmarks s = bs \<and> Config s = cfg \<and>
           (bs = [] \<longrightarrow> nextID s = 1) \<and>
           (bs \<noteq> [] \<longrightarrow>
              nextID s = word_of_int (max 0 (Max ((\<lambda>b. sint (ID b)) ` set bs))) + 1) \<and>
           (bs \<noteq> [] \<and> 0 \<le> Max ((\<lambda>b. sint (ID b)) ` set bs) \<and>
              Max ((\<lambda>b. sint (ID b)) ` set bs) < 2 ^ 63 - 1 \<longrightarrow>
              sint (nextID s) = Max ((\<lambda>b. sint (ID b)) ` set bs) + 1) \<and>
           (bs \<noteq> [] \<and> Max ((\<lambda>b. sint (ID b)) ` set bs) < 0 \<longrightarrow> nextID s = 1)"
proof -
  let ?M = "Max ((\<lambda>b. sint (ID b)) ` set bs)"
  let ?s = "\<lparr>Bookmarks = bs, Config = cfg,
             nextID = (if length bs > 0 then maxIDLoop bs 0 + 1 else 1)\<rparr>"
  have load: "loadState w = Returns (Some ?s, None, [])"
    using assms by (simp add: loadState_def)
  have loop: "maxIDLoop bs 0 = word_of_int (max 0 ?M)" if "bs \<noteq> []"
  proof -
    have "sint (maxIDLoop bs 0) = max 0 ?M"
      using that by (simp add: maxIDLoop_eq)
    then have "word_of_int (sint (maxIDLoop bs 0)) = (word_of_int (max 0 ?M) :: go_int)"
      by simp
    then show ?thesis by simp
  qed
  have general: "bs \<noteq> [] \<longrightarrow> nextID ?s = word_of_int (max 0 ?M) + 1"
    using loop by simp
  have inrange: "bs \<noteq> [] \<and> 0 \<le> ?M \<and> ?M < 2 ^ 63 - 1 \<longrightarrow> sint (nextID ?s) = ?M + 1"
  proof (intro impI, elim conjE)
    assume ne: "bs \<noteq> []" and lo: "0 \<le> ?M" and hi: "?M < 2 ^ 63 - 1"
    have m: "sint (maxIDLoop bs 0) = ?M" using ne lo by (simp add: maxIDLoop_eq)
    then have "sint (maxIDLoop bs 0 + 1) = ?M + 1" using hi by (simp add: sint_succ)
    with ne show "sint (nextID ?s) = ?M + 1" by simp
  qed
  have negative: "bs \<noteq> [] \<and> ?M < 0 \<longrightarrow> nextID ?s = 1"
    using loop by (simp add: max_def)
  show ?thesis
    using load general inrange negative by (intro exI [of _ ?s]) simp
qed

theorem loadState_nextID_witness:
  "\<exists>s. loadState (exampleWorld\<lparr>StateFile := Stored (Bookmarks favoriteState) (Config favoriteState)\<rparr>)
          = Returns (Some s, None, []) \<and>
       Bookmarks s = Bookmarks favoriteState \<and> Config s = Config favoriteState \<and>
       nextID s = 8 \<and> sint (nextID s) = 8"
  using loadState_nextID
    [of "exampleWorld\<lparr>StateFile := Stored (Bookmarks favoriteState) (Config favoriteState)\<rparr>"
        "Bookmarks favoriteState" "Config favoriteState"]
  by (auto simp: favoriteState_def)

subsection \<open>Flattening the Chromium tree\<close>

text \<open>
  C6. For every bookmark tree and every state, \<open>parseChromeBookmarks\<close> does what merging
  the pairs of \<open>flattenPairs\<close> one after the other does, where \<open>flattenPairs\<close> lists, in
  pre-order, the (name, url) of exactly the nodes whose type is \<^verbatim>\<open>url\<close> and whose URL is
  not empty; there are as many pairs as the tree has such nodes (\<open>urlLeaves\<close>), whatever
  folders lie around them and however deep. When the URLs of these pairs differ from one
  another and from those in the collection, the collection grows by exactly these pairs,
  in this order.
\<close>

theorem parseChromeBookmarks_flattens:
  "parseChromeBookmarks node s = mergeAll (flattenPairs node) s \<and>
   length (flattenPairs node) = urlLeaves node \<and>
   (distinct (map snd (flattenPairs node)) \<and>
    snd ` set (flattenPairs node) \<inter> URL ` set (Bookmarks s) = {} \<longrightarrow>
      pairsOf (Bookmarks (parseChromeBookmarks node s))
        = pairsOf (Bookmarks s) @ flattenPairs node)"
  by (simp add: parse_is_mergeAll length_flattenPairs mergeAll_fresh)

theorem parseChromeBookmarks_flattens_witness:
  "parseChromeBookmarks exampleTree emptyState
     = mergeAll [(''A'', ''http://a''), (''B'', ''http://b'')] emptyState \<and>
   urlLeaves exampleTree = 2 \<and>
   pairsOf (Bookmarks (parseChromeBookmarks exampleTree emptyState))
     = [(''A'', ''http://a''), (''B'', ''http://b'')]"
  using parseChromeBookmarks_flattens [of exampleTree emptyState]
  by (simp add: flattenPairs_def contributes_def exampleTree_def emptyState_def pairsOf_def)

subsection \<open>Importing a file twice\<close>

text \<open>
  C7. For every bookmark file (readable or not, well-formed or not), every state and
  every two orders in which the two runs of \<^verbatim>\<open>range root.Roots\<close> may visit the roots (the
  second visiting no key that the first did not): importing the file a second time
  returns the state of the first import unchanged, bookmarks, configuration and next
  identifier, with the same error value.
\<close>

theorem importFromChrome_twice:
  assumes "set order2 \<subseteq> set order1"
  shows "snd (importFromChrome file order2 (snd (importFromChrome file order1 s)))
           = snd (importFromChrome file order1 s) \<and>
         fst (importFromChrome file order2 (snd (importFromChrome file order1 s)))
           = fst (importFromChrome file order1 s)"
proof -
  have sub: "set (concat (map (\<lambda>kn. flattenPairs (snd kn)) (rangeMap roots order2)))
      \<subseteq> set (concat (map (\<lambda>kn. flattenPairs (snd kn)) (rangeMap roots order1)))" for roots
    using assms by (auto simp: set_rangeMap)
  show ?thesis
    by (auto simp: importFromChrome_def parseRoots_is_mergeAll mergeAll_twice [OF sub]
             split: option.splits fileContent.splits)
qed

theorem importFromChrome_twice_witness:
  "snd (importFromChrome (Some (JSON exampleDoc)) [''bookmark_bar'']
         (snd (importFromChrome (Some (JSON exampleDoc)) [''other'', ''bookmark_bar''] emptyState)))
     = snd (importFromChrome (Some (JSON exampleDoc)) [''other'', ''bookmark_bar''] emptyState) \<and>
   importFromChrome (Some (JSON exampleDoc)) [''other'', ''bookmark_bar''] emptyState
     = (None,
        \<lparr>Bookmarks = [\<lparr>ID = 1, Name = ''A'', URL = ''http://a'', Favorite = False\<rparr>,
                      \<lparr>ID = 2, Name = ''B'', URL = ''http://b'', Favorite = False\<rparr>],
         Config = \<lparr>DefaultBrowserCmd = ''xdg-open''\<rparr>, nextID = 3\<rparr>)"
proof -
  have sub: "set [''bookmark_bar''] \<subseteq> set [''other'', ''bookmark_bar'']" by simp
  have once: "importFromChrome (Some (JSON exampleDoc)) [''other'', ''bookmark_bar''] emptyState
     = (None,
        \<lparr>Bookmarks = [\<lparr>ID = 1, Name = ''A'', URL = ''http://a'', Favorite = False\<rparr>,
                      \<lparr>ID = 2, Name = ''B'', URL = ''http://b'', Favorite = False\<rparr>],
         Config = \<lparr>DefaultBrowserCmd = ''xdg-open''\<rparr>, nextID = 3\<rparr>)"
    by (simp add: importFromChrome_def Unmarshal_root_exampleDoc rangeMap_def exampleTree_def
          emptyState_def addBookmark_def)
  show ?thesis
    using importFromChrome_twice [OF sub, of "Some (JSON exampleDoc)" emptyState] once
    by simp
qed

subsection \<open>An import only appends\<close>

text \<open>
  C8. Whenever \<open>importBookmarks\<close> returns, the collection it started from is a prefix
  of the collection it returns: every bookmark that was there is still there, at its
  place and with every field as it was. The same holds between the collection after the
  Chromium files and the returned one, whatever the Firefox databases do: what was merged
  from Chromium stays. A call of \<open>importFromFirefox\<close> that returns an error returns the
  state it was given.
\<close>

theorem importBookmarks_only_appends:
  assumes "importBookmarks w s = Returns (s', evs)"
  shows "prefix (Bookmarks s) (Bookmarks s') \<and>
         (\<exists>chromeLikePaths firefoxDirs.
            getBrowserPaths w = Returns (chromeLikePaths, firefoxDirs) \<and>
            prefix (Bookmarks s) (Bookmarks (state (chromeBlock w chromeLikePaths s))) \<and>
            prefix (Bookmarks (state (chromeBlock w chromeLikePaths s))) (Bookmarks s')) \<and>
         (fst (importFromFirefox db st) \<noteq> None \<longrightarrow> snd (importFromFirefox db st) = st)"
proof -
  obtain cl ff where g: "getBrowserPaths w = Returns (cl, ff)"
    using assms by (auto simp: importBookmarks_def split: outcome.splits)
  have s': "s' = state (firefoxBlock w ff (chromeBlock w cl s))"
    using assms g by (simp add: importBookmarks_def Let_def)
  have p1: "prefix (Bookmarks s) (Bookmarks (state (chromeBlock w cl s)))"
    by (rule chromeBlock_prefix)
  have p2: "prefix (Bookmarks (state (chromeBlock w cl s))) (Bookmarks s')"
    unfolding s' by (rule firefoxBlock_prefix)
  from p1 p2 have "prefix (Bookmarks s) (Bookmarks s')" by (rule prefix_order.trans)
  with g p1 p2 show ?thesis by (simp add: importFromFirefox_error)
qed

theorem importBookmarks_only_appends_witness:
  "importBookmarks corruptFirefoxWorld favoriteState = Returns
     (\<lparr>Bookmarks = [\<lparr>ID = 7, Name = ''My site'', URL = ''http://b'', Favorite = True\<rparr>,
                    \<lparr>ID = 8, Name = ''A'', URL = ''http://a'', Favorite = False\<rparr>],
       Config = \<lparr>DefaultBrowserCmd = ''xdg-open''\<rparr>, nextID = 9\<rparr>,
      [CheckedBrowser ''Chrome'',
       FirefoxImportFailed ''/home/u/.mozilla/firefox/a.default/places.sqlite'' CouldNotQuery,
       ImportedNew 1]) \<and>
   prefix (Bookmarks favoriteState)
     [\<lparr>ID = 7, Name = ''My site'', URL = ''http://b'', Favorite = True\<rparr>,
      \<lparr>ID = 8, Name = ''A'', URL = ''http://a'', Favorite = False\<rparr>] \<and>
   snd (importFromFirefox QueryFails favoriteState) = favoriteState"
  using importBookmarks_only_appends [OF importBookmarks_corruptFirefoxWorld, of QueryFails favoriteState]
        importBookmarks_corruptFirefoxWorld
  by (simp add: importFromFirefox_def)

subsection \<open>Helper facts about the directory walk\<close>

lemma walkFn_places:
  "fst (walkFn path (File ''places.sqlite'' db) run) = SkipDir"
  by (simp split: prod.splits option.splits)

lemma walkEntries_NilErr: "fst (walkEntries join path ds run) = NilErr"
proof (induction ds arbitrary: run)
  case Nil
  show ?case by simp
next
  case (Cons d ds)
  show ?case
    by (cases "walkDir join (join path (entryName d)) d run")
       (auto simp: Cons.IH split: walkErr.splits)
qed

lemma walkDir_Dir_NilErr: "fst (walkDir join path (Dir name entries) run) = NilErr"
  by (simp add: walkEntries_NilErr)

lemma walkEntries_skips_rest:
  "walkEntries join path (pre @ File ''places.sqlite'' db # post) run
     = walkEntries join path (pre @ [File ''places.sqlite'' db]) run"
proof (induction pre arbitrary: run)
  case Nil
  obtain r where "walkFn (join path ''places.sqlite'') (File ''places.sqlite'' db) run = (SkipDir, r)"
    using walkFn_places [of "join path ''places.sqlite''" db run]
    by (cases "walkFn (join path ''places.sqlite'') (File ''places.sqlite'' db) run") simp
  then show ?case by simp
next
  case (Cons d pre)
  show ?case
    by (cases "walkDir join (join path (entryName d)) d run")
       (auto simp: Cons.IH split: walkErr.splits)
qed

lemma importBookmarks_exampleWorld:
  "importBookmarks exampleWorld emptyState = Returns
     (\<lparr>Bookmarks =
         [\<lparr>ID = 1, Name = ''A'', URL = ''http://a'', Favorite = False\<rparr>,
          \<lparr>ID = 2, Name = ''B'', URL = ''http://b'', Favorite = False\<rparr>,
          \<lparr>ID = 3, Name = ''Site C'', URL = ''http://c'', Favorite = False\<rparr>,
          \<lparr>ID = 4, Name = ''Site D'', URL = ''http://d'', Favorite = False\<rparr>],
       Config = \<lparr>DefaultBrowserCmd = ''xdg-open''\<rparr>, nextID = 5\<rparr>,
      [CheckedBrowser ''Chrome'', CheckedFirefox, CheckedFirefox, ImportedNew 4])"
  by (simp add: importBookmarks_def getBrowserPaths_exampleWorld chromeBlock_def
        firefoxBlock_def rangeMap_def WalkDir_def Let_def)
     (simp add: exampleWorld_def importFromChrome_def Unmarshal_root_exampleDoc rangeMap_def
        exampleTree_def addBookmark_def exampleProfiles_def importFromFirefox_def
        emptyState_def)

subsection \<open>Helper facts about decoding\<close>

lemma rangeMap_empty: "rangeMap Map.empty order = []"
  by (induction order) (simp_all add: rangeMap_def)

lemma decodeRootMembers_no_roots:
  "\<forall>kv\<in>set kvs. \<not> matchesField (fst kv) ''roots'' \<Longrightarrow> decodeRootMembers kvs m = Some m"
  by (induction kvs) auto

lemma decodeRootMembers_bad_roots:
  assumes "\<forall>kv\<in>set pre. \<not> matchesField (fst kv) ''roots''"
    and "matchesField k ''roots''" and "decodeRoots v m = None"
  shows "decodeRootMembers (pre @ (k, v) # post) m = None"
  using assms by (induction pre) auto

lemma decodeRoots_mismatch: "v \<noteq> JNull \<Longrightarrow> \<forall>es. v \<noteq> JObject es \<Longrightarrow> decodeRoots v m = None"
  by (cases v) auto

lemma matchesField_examples:
  "\<not> matchesField ''version'' ''roots''" "\<not> matchesField ''checksum'' ''roots''"
  "matchesField ''Roots'' ''roots''"
  by code_simp+

subsection \<open>Helper facts about the commands\<close>

lemma findByID_Some: "\<exists>b\<in>set bs. ID b = i \<Longrightarrow> \<exists>b. findByID bs i = Some b"
  by (induction bs) auto

lemma Fields_empty: "Fields '''' = []"
  by (simp add: Fields_def)

lemma Fields_examples:
  "Fields ''open 1'' = [''open'', ''1'']" "Fields ''list fav'' = [''list'', ''fav'']"
  by (simp_all add: Fields_def spaceLen_def)

lemma Atoi_1: "Atoi ''1'' = Some 1"
  by (simp add: Atoi_def isDigit_def)

lemma mset_insertBy: "mset (insertBy lt x xs) = add_mset x (mset xs)"
  by (induction xs) auto

lemma mset_insertionSort: "mset (insertionSort lt xs) = mset xs"
  by (induction xs) (auto simp: mset_insertBy)

lemma set_insertBy: "set (insertBy lt x xs) = insert x (set xs)"
  by (induction xs) auto

lemma sorted_insertBy:
  fixes f :: "'a \<Rightarrow> 'b::linorder"
  shows "sorted (map f xs) \<Longrightarrow> sorted (map f (insertBy (\<lambda>a b. f a < f b) x xs))"
  by (induction xs) (auto simp: set_insertBy)

lemma sorted_insertionSort:
  fixes f :: "'a \<Rightarrow> 'b::linorder"
  shows "sorted (map f (insertionSort (\<lambda>a b. f a < f b) xs))"
  by (induction xs) (auto simp: sorted_insertBy)

lemma sortSliceContract_exampleWorld: "sortSliceContract exampleWorld"
  unfolding sortSliceContract_def
proof (intro allI conjI)
  fix bs
  have l: "lessByName exampleWorld = (\<lambda>a b. asciiLower (Name a) < asciiLower (Name b))"
    by (simp add: lessByName_def exampleWorld_def fun_eq_iff)
  have s: "SortSlice exampleWorld = insertionSort" and t: "ToLower exampleWorld = asciiLower"
    by (simp_all add: exampleWorld_def)
  show "mset (SortSlice exampleWorld (lessByName exampleWorld) bs) = mset bs"
    by (simp add: s mset_insertionSort)
  show "sorted (map (\<lambda>b. ToLower exampleWorld (Name b))
          (SortSlice exampleWorld (lessByName exampleWorld) bs))"
    unfolding l s t by (rule sorted_insertionSort)
qed

lemma SortSlice_unsortedState:
  "SortSlice exampleWorld (lessByName exampleWorld) (Bookmarks unsortedState)
     = [\<lparr>ID = 2, Name = ''Alpha'', URL = ''http://a'', Favorite = True\<rparr>,
        \<lparr>ID = 3, Name = ''beta'', URL = ''http://b'', Favorite = False\<rparr>,
        \<lparr>ID = 1, Name = ''zeta'', URL = ''http://z'', Favorite = False\<rparr>]"
  by code_simp

subsection \<open>The search for the Firefox database\<close>

text \<open>
  C1, as stated, fails when a second directory holds a \<^verbatim>\<open>places.sqlite\<close>. In
  \<open>exampleWorld\<close> the Firefox directory has the profiles \<^verbatim>\<open>a.default\<close> and
  \<^verbatim>\<open>b.default-release\<close>, each with a \<^verbatim>\<open>places.sqlite\<close>. The closure answers the first with
  \<^verbatim>\<open>filepath.SkipDir\<close>, which ends the walk of \<^verbatim>\<open>a.default\<close> only; the walk goes on to
  \<^verbatim>\<open>b.default-release\<close> and imports its database too: the run reports Firefox twice, and
  the bookmark \<^verbatim>\<open>Site D\<close>, which only the second database holds, is in the collection.
\<close>

theorem importBookmarks_two_profiles_counterexample:
  "importBookmarks exampleWorld emptyState = Returns
     (\<lparr>Bookmarks =
         [\<lparr>ID = 1, Name = ''A'', URL = ''http://a'', Favorite = False\<rparr>,
          \<lparr>ID = 2, Name = ''B'', URL = ''http://b'', Favorite = False\<rparr>,
          \<lparr>ID = 3, Name = ''Site C'', URL = ''http://c'', Favorite = False\<rparr>,
          \<lparr>ID = 4, Name = ''Site D'', URL = ''http://d'', Favorite = False\<rparr>],
       Config = \<lparr>DefaultBrowserCmd = ''xdg-open''\<rparr>, nextID = 5\<rparr>,
      [CheckedBrowser ''Chrome'', CheckedFirefox, CheckedFirefox, ImportedNew 4])"
  by (rule importBookmarks_exampleWorld)

text \<open>
  C1, amended. During an import run the search stops within the directory that holds the
  match: when the walk meets a file named exactly \<^verbatim>\<open>places.sqlite\<close>, it hands it to
  \<open>importFromFirefox\<close> and records that a database was found, and no later entry of the
  same directory is visited (the walk of a directory gives the same result with and
  without the entries that follow the file). The walk of a directory never ends the walk
  of the directory above it: the later entries of that one are still visited, so a
  \<^verbatim>\<open>places.sqlite\<close> in another profile directory is imported in the same run.
\<close>

theorem walk_stops_within_directory:
  "walkEntries join path (pre @ File ''places.sqlite'' db # post) run
     = walkEntries join path (pre @ [File ''places.sqlite'' db]) run \<and>
   walkEntries join path (Dir name entries # rest) run
     = walkEntries join path rest (snd (walkDir join (join path name) (Dir name entries) run)) \<and>
   state (snd (walkFn path (File ''places.sqlite'' db) run))
     = snd (importFromFirefox db (state run)) \<and>
   foundFirefoxDB (snd (walkFn path (File ''places.sqlite'' db) run))"
proof -
  have "walkEntries join path (Dir name entries # rest) run
     = walkEntries join path rest (snd (walkDir join (join path name) (Dir name entries) run))"
    using walkDir_Dir_NilErr [of join "join path name" name entries run]
    by (cases "walkDir join (join path name) (Dir name entries) run") (simp del: walkDir.simps)
  moreover have "state (snd (walkFn path (File ''places.sqlite'' db) run))
      = snd (importFromFirefox db (state run))"
    by (simp split: prod.splits option.splits)
  moreover have "foundFirefoxDB (snd (walkFn path (File ''places.sqlite'' db) run))"
    by (simp split: prod.splits option.splits)
  ultimately show ?thesis using walkEntries_skips_rest by simp
qed

theorem walk_stops_within_directory_witness:
  "walkEntries (\<lambda>a b. a @ ''/'' @ b) ''/p''
     [File ''cookies.sqlite'' QueryFails,
      File ''places.sqlite'' (Rows [Some (''Site A'', ''http://a'')]),
      Dir ''storage'' [File ''places.sqlite'' (Rows [Some (''Old'', ''http://old'')])]]
     freshRun
   = (NilErr,
      \<lparr>state = \<lparr>Bookmarks = [\<lparr>ID = 1, Name = ''Site A'', URL = ''http://a'', Favorite = False\<rparr>],
                 Config = \<lparr>DefaultBrowserCmd = ''xdg-open''\<rparr>, nextID = 2\<rparr>,
       foundAnyBrowser = True, foundFirefoxDB = True, printed = [CheckedFirefox]\<rparr>) \<and>
   walkEntries (\<lambda>a b. a @ ''/'' @ b) ''/p''
     [Dir ''a.default'' [File ''places.sqlite'' (Rows [Some (''Site A'', ''http://a'')])],
      Dir ''b.default'' [File ''places.sqlite'' (Rows [Some (''Site D'', ''http://d'')])]]
     freshRun
   = (NilErr,
      \<lparr>state = \<lparr>Bookmarks = [\<lparr>ID = 1, Name = ''Site A'', URL = ''http://a'', Favorite = False\<rparr>,
                               \<lparr>ID = 2, Name = ''Site D'', URL = ''http://d'', Favorite = False\<rparr>],
                 Config = \<lparr>DefaultBrowserCmd = ''xdg-open''\<rparr>, nextID = 3\<rparr>,
       foundAnyBrowser = True, foundFirefoxDB = True,
       printed = [CheckedFirefox, CheckedFirefox]\<rparr>)"
  using walk_stops_within_directory
    [of "\<lambda>a b. a @ ''/'' @ b" "''/p''" "[File ''cookies.sqlite'' QueryFails]"
        "Rows [Some (''Site A'', ''http://a'')]"
        "[Dir ''storage'' [File ''places.sqlite'' (Rows [Some (''Old'', ''http://old'')])]]"
        freshRun "''a.default''"
        "[File ''places.sqlite'' (Rows [Some (''Site A'', ''http://a'')])]"
        "[Dir ''b.default'' [File ''places.sqlite'' (Rows [Some (''Site D'', ''http://d'')])]]"]
  by (simp add: freshRun_def emptyState_def importFromFirefox_def addBookmark_def)

subsection \<open>Bookmark files without roots\<close>

text \<open>
  C2, as stated, fails: a readable file whose content is the JSON object
  \<^verbatim>\<open>{"checksum": "abc", "version": 1}\<close>, which has no \<^verbatim>\<open>roots\<close>, is imported without an
  error and leaves the collection as it was. \<^verbatim>\<open>json.Unmarshal\<close> leaves a field that the
  document does not mention at its zero value, and \<open>importFromChrome\<close> does not look
  whether \<^verbatim>\<open>Roots\<close> was set.
\<close>

theorem importFromChrome_no_roots_counterexample:
  "importFromChrome
     (Some (JSON (JObject [(''checksum'', JString ''abc''), (''version'', JNumber ''1'')])))
     [] favoriteState = (None, favoriteState)"
  by (simp add: importFromChrome_def matchesField_examples rangeMap_def)

text \<open>
  C2, amended. For a readable file whose content is valid JSON, \<open>importFromChrome\<close>
  fails (with its one parse error, the collection unchanged) when the document is
  neither an object nor \<^verbatim>\<open>null\<close>, and when the first member that matches \<^verbatim>\<open>roots\<close> is
  neither an object nor \<^verbatim>\<open>null\<close>; it succeeds, with nothing merged, when the document is
  an object with no member matching \<^verbatim>\<open>roots\<close> and when it is \<^verbatim>\<open>null\<close>. Content that is
  no JSON gives the parse error, a file that cannot be read the read error.
\<close>

theorem importFromChrome_format:
  "((\<forall>kv\<in>set kvs. \<not> matchesField (fst kv) ''roots'') \<longrightarrow>
      importFromChrome (Some (JSON (JObject kvs))) order s = (None, s)) \<and>
   importFromChrome (Some (JSON JNull)) order s = (None, s) \<and>
   (j \<noteq> JNull \<and> (\<forall>es. j \<noteq> JObject es) \<longrightarrow>
      importFromChrome (Some (JSON j)) order s = (Some CouldNotParseJSON, s)) \<and>
   ((\<forall>kv\<in>set pre. \<not> matchesField (fst kv) ''roots'') \<and> matchesField k ''roots'' \<and>
    v \<noteq> JNull \<and> (\<forall>es. v \<noteq> JObject es) \<longrightarrow>
      importFromChrome (Some (JSON (JObject (pre @ (k, v) # post)))) order s
        = (Some CouldNotParseJSON, s)) \<and>
   importFromChrome (Some NotJSON) order s = (Some CouldNotParseJSON, s) \<and>
   importFromChrome None order s = (Some CouldNotReadFile, s)"
proof -
  have a: "(\<forall>kv\<in>set kvs. \<not> matchesField (fst kv) ''roots'') \<longrightarrow>
      importFromChrome (Some (JSON (JObject kvs))) order s = (None, s)"
    by (simp add: importFromChrome_def decodeRootMembers_no_roots rangeMap_empty)
  have b: "importFromChrome (Some (JSON JNull)) order s = (None, s)"
    by (simp add: importFromChrome_def rangeMap_empty)
  have c: "j \<noteq> JNull \<and> (\<forall>es. j \<noteq> JObject es) \<longrightarrow>
      importFromChrome (Some (JSON j)) order s = (Some CouldNotParseJSON, s)"
    by (cases j) (simp_all add: importFromChrome_def)
  have d: "(\<forall>kv\<in>set pre. \<not> matchesField (fst kv) ''roots'') \<and> matchesField k ''roots'' \<and>
    v \<noteq> JNull \<and> (\<forall>es. v \<noteq> JObject es) \<longrightarrow>
      importFromChrome (Some (JSON (JObject (pre @ (k, v) # post)))) order s
        = (Some CouldNotParseJSON, s)"
    by (simp add: importFromChrome_def decodeRootMembers_bad_roots decodeRoots_mismatch)
  show ?thesis using a b c d by (simp add: importFromChrome_def)
qed

theorem importFromChrome_format_witness:
  "importFromChrome (Some (JSON (JObject [(''version'', JNumber ''1'')]))) [] emptyState
     = (None, emptyState) \<and>
   importFromChrome (Some (JSON (JArray []))) [] emptyState = (Some CouldNotParseJSON, emptyState) \<and>
   importFromChrome (Some (JSON (JObject [(''Roots'', JNumber ''5'')]))) [] emptyState
     = (Some CouldNotParseJSON, emptyState)"
  using importFromChrome_format
    [of "[(''version'', JNumber ''1'')]" "[]" emptyState "JArray []" "[]" "''Roots''"
        "JNumber ''5''" "[]"]
  by (simp add: matchesField_examples)

subsection \<open>Opening a bookmark without a browser command\<close>

text \<open>
  C9. When the browser command of the configuration is the empty string, every input
  whose fields are \<^verbatim>\<open>open\<close> and an argument that \<^verbatim>\<open>strconv.Atoi\<close> reads as the identifier
  of a bookmark in the collection makes \<open>handleCommand\<close> panic with an index out of
  range (\<^verbatim>\<open>cmdParts[0]\<close> of the empty \<^verbatim>\<open>strings.Fields\<close>) instead of returning. The
  command is empty in the state that \<open>loadState\<close> creates when there is no
  \<^verbatim>\<open>bookmarks.json\<close> and the operating system is none of darwin, linux and windows, and in
  the state it loads from a file whose configuration has the empty command.
\<close>

theorem open_with_empty_command_panics:
  "(DefaultBrowserCmd (Config s) = '''' \<and> Fields input = ''open'' # arg # rest \<and>
    Atoi arg = Some i \<and> (\<exists>b\<in>set (Bookmarks s). ID b = i) \<longrightarrow>
      handleCommand w s input = Panics IndexOutOfRange) \<and>
   (StateFile w = NotExist \<and> GOOS w \<notin> {''darwin'', ''linux'', ''windows''} \<longrightarrow>
      (\<exists>s0 err evs. loadState w = Returns (Some s0, err, evs) \<and>
                     DefaultBrowserCmd (Config s0) = '''')) \<and>
   (StateFile w = Stored bs \<lparr>DefaultBrowserCmd = ''''\<rparr> \<longrightarrow>
      (\<exists>s0. loadState w = Returns (Some s0, None, []) \<and> DefaultBrowserCmd (Config s0) = ''''))"
proof -
  have a: "DefaultBrowserCmd (Config s) = '''' \<and> Fields input = ''open'' # arg # rest \<and>
    Atoi arg = Some i \<and> (\<exists>b\<in>set (Bookmarks s). ID b = i) \<longrightarrow>
      handleCommand w s input = Panics IndexOutOfRange"
  proof (intro impI, elim conjE)
    assume cmd: "DefaultBrowserCmd (Config s) = ''''" and f: "Fields input = ''open'' # arg # rest"
      and at: "Atoi arg = Some i" and ex: "\<exists>b\<in>set (Bookmarks s). ID b = i"
    obtain b where "findByID (Bookmarks s) i = Some b" using findByID_Some [OF ex] by blast
    then show "handleCommand w s input = Panics IndexOutOfRange"
      using cmd f at by (simp add: handleCommand_def cmdOpen_def Fields_empty)
  qed
  have b: "StateFile w = NotExist \<and> GOOS w \<notin> {''darwin'', ''linux'', ''windows''} \<longrightarrow>
      (\<exists>s0 err evs. loadState w = Returns (Some s0, err, evs) \<and>
                     DefaultBrowserCmd (Config s0) = '''')"
    by (simp add: loadState_def Let_def)
  have c: "StateFile w = Stored bs \<lparr>DefaultBrowserCmd = ''''\<rparr> \<longrightarrow>
      (\<exists>s0. loadState w = Returns (Some s0, None, []) \<and> DefaultBrowserCmd (Config s0) = '''')"
    by (simp add: loadState_def)
  from a b c show ?thesis by blast
qed

theorem open_with_empty_command_panics_witness:
  "loadState unknownOSWorld
     = Returns (Some \<lparr>Bookmarks = [], Config = \<lparr>DefaultBrowserCmd = ''''\<rparr>, nextID = 1\<rparr>,
                None, [NoStateFileFound, Wrote [] \<lparr>DefaultBrowserCmd = ''''\<rparr>]) \<and>
   handleCommand unknownOSWorld
     (addBookmark \<lparr>Bookmarks = [], Config = \<lparr>DefaultBrowserCmd = ''''\<rparr>, nextID = 1\<rparr>
        ''A'' ''http://a'')
     ''open 1'' = Panics IndexOutOfRange"
  using open_with_empty_command_panics
    [where w = unknownOSWorld and input = "''open 1''" and arg = "''1''" and rest = "[]"
       and i = 1 and bs = "[]"
       and s = "addBookmark \<lparr>Bookmarks = [], Config = \<lparr>DefaultBrowserCmd = ''''\<rparr>, nextID = 1\<rparr>
                  ''A'' ''http://a''"]
  by (simp add: Fields_examples Atoi_1 addBookmark_def unknownOSWorld_def exampleWorld_def
        loadState_def saveState_def)

subsection \<open>Listing sorts the collection\<close>

text \<open>
  C10. For every input whose first field is \<^verbatim>\<open>list\<close> or \<^verbatim>\<open>ls\<close>, whatever fields follow,
  and every \<^verbatim>\<open>sort.Slice\<close> that keeps its documented promise: \<open>handleCommand\<close> returns
  the state with the collection replaced by the sorted one, which holds the same
  bookmarks ordered by lower-cased name, and nothing else changed; a save of the
  returned state writes the collection in that order.
\<close>

theorem list_sorts_the_collection:
  assumes "Fields input = command # args" and "command = ''list'' \<or> command = ''ls''"
    and "sortSliceContract w"
  shows "\<exists>s' evs. handleCommand w s input = Returns (False, s', evs) \<and>
           s' = s\<lparr>Bookmarks := SortSlice w (lessByName w) (Bookmarks s)\<rparr> \<and>
           sorted (map (\<lambda>b. ToLower w (Name b)) (Bookmarks s')) \<and>
           mset (Bookmarks s') = mset (Bookmarks s) \<and>
           (\<not> WriteFileFails w \<longrightarrow>
              saveState w s' = (None, [Wrote (Bookmarks s') (Config s')]))"
  using assms
  by (auto simp: handleCommand_def cmdList_def Let_def sortSliceContract_def saveState_def)

theorem list_sorts_the_collection_witness:
  "handleCommand exampleWorld unsortedState ''list fav''
     = Returns (False,
         \<lparr>Bookmarks = [\<lparr>ID = 2, Name = ''Alpha'', URL = ''http://a'', Favorite = True\<rparr>,
                       \<lparr>ID = 3, Name = ''beta'', URL = ''http://b'', Favorite = False\<rparr>,
                       \<lparr>ID = 1, Name = ''zeta'', URL = ''http://z'', Favorite = False\<rparr>],
          Config = \<lparr>DefaultBrowserCmd = ''''\<rparr>, nextID = 4\<rparr>,
         [BookmarkLine \<lparr>ID = 2, Name = ''Alpha'', URL = ''http://a'', Favorite = True\<rparr> False]) \<and>
   saveState exampleWorld
         \<lparr>Bookmarks = [\<lparr>ID = 2, Name = ''Alpha'', URL = ''http://a'', Favorite = True\<rparr>,
                       \<lparr>ID = 3, Name = ''beta'', URL = ''http://b'', Favorite = False\<rparr>,
                       \<lparr>ID = 1, Name = ''zeta'', URL = ''http://z'', Favorite = False\<rparr>],
          Config = \<lparr>DefaultBrowserCmd = ''''\<rparr>, nextID = 4\<rparr>
     = (None, [Wrote [\<lparr>ID = 2, Name = ''Alpha'', URL = ''http://a'', Favorite = True\<rparr>,
                       \<lparr>ID = 3, Name = ''beta'', URL = ''http://b'', Favorite = False\<rparr>,
                       \<lparr>ID = 1, Name = ''zeta'', URL = ''http://z'', Favorite = False\<rparr>]
                      \<lparr>DefaultBrowserCmd = ''''\<rparr>])"
proof -
  have c: "''list'' = ''list'' \<or> ''list'' = ''ls''" by simp
  have w: "\<not> WriteFileFails exampleWorld" by (simp add: exampleWorld_def)
  show ?thesis
    using list_sorts_the_collection [OF Fields_examples(2) c sortSliceContract_exampleWorld,
            of unsortedState] SortSlice_unsortedState w
    by (auto simp: handleCommand_def cmdList_def Fields_examples unsortedState_def)
qed

end
